theory Spec2Isabelle
  imports Main "HOL-Library.Sublist"
begin

section \<open>JavaScript values\<close>

text \<open>
  A value parsed from a JSON response body. An object is the list of its own properties
  in the order \<^verbatim>\<open>Object.keys\<close> enumerates them (property names are distinct); a
  property that is missing reads as \<^verbatim>\<open>undefined\<close>, modelled by \<open>None\<close>.
  Numbers are taken to be integers, rendered in decimal by \<^verbatim>\<open>String\<close>, and strings
  are lists of ASCII characters. This is what the program does for integers of a
  magnitude below \<open>2 ^ 53\<close>, which a JavaScript number holds exactly; beyond
  \<open>10 ^ 21\<close> JavaScript writes an exponent, and beyond \<open>2 ^ 53\<close> \<^verbatim>\<open>parseInt\<close>
  rounds, neither of which is modelled.
\<close>

datatype json =
    JNull
  | JBool bool
  | JNum int
  | JStr string
  | JArr "json list"
  | JObj "(string \<times> json) list"

text \<open>\<^verbatim>\<open>typeof v === 'object' && v !== null\<close>: arrays are objects too.\<close>

fun isObject :: "json \<Rightarrow> bool" where
  "isObject (JArr _) = True"
| "isObject (JObj _) = True"
| "isObject _ = False"

text \<open>Truthiness of a value that may be \<^verbatim>\<open>undefined\<close>.\<close>

fun truthy :: "json option \<Rightarrow> bool" where
  "truthy None = False"
| "truthy (Some JNull) = False"
| "truthy (Some (JBool b)) = b"
| "truthy (Some (JNum n)) = (n \<noteq> 0)"
| "truthy (Some (JStr s)) = (s \<noteq> [])"
| "truthy (Some (JArr _)) = True"
| "truthy (Some (JObj _)) = True"

text \<open>
  Reading a property \<^verbatim>\<open>v[k]\<close> or \<^verbatim>\<open>v.k\<close>, for the names the program reads
  (\<^verbatim>\<open>status\<close>, \<^verbatim>\<open>message\<close>, \<^verbatim>\<open>recsindb\<close>, \<^verbatim>\<open>recsonpage\<close>, \<^verbatim>\<open>host\<close>,
  \<^verbatim>\<open>description\<close>, \<^verbatim>\<open>domainname\<close> and the \<^verbatim>\<open>customer.*\<close> names): none of them is
  an array index or a property of a built-in prototype, so only an object's own
  properties answer. The same holds for \<^verbatim>\<open>k in v\<close>.
\<close>

fun getProp :: "json \<Rightarrow> string \<Rightarrow> json option" where
  "getProp (JObj kvs) k = map_of kvs k"
| "getProp _ k = None"

text \<open>The nullish coalescing operator \<^verbatim>\<open>v ?? d\<close>.\<close>

fun coalesce :: "json option \<Rightarrow> json \<Rightarrow> json" where
  "coalesce None d = d"
| "coalesce (Some JNull) d = d"
| "coalesce (Some v) d = v"

subsection \<open>Strings\<close>

definition toLowerChar :: "char \<Rightarrow> char" where
  "toLowerChar c =
     (case map_of (zip ''ABCDEFGHIJKLMNOPQRSTUVWXYZ'' ''abcdefghijklmnopqrstuvwxyz'') c of
        Some l \<Rightarrow> l
      | None \<Rightarrow> c)"

definition toLowerCase :: "string \<Rightarrow> string" where
  "toLowerCase s = map toLowerChar s"

text \<open>\<^verbatim>\<open>s.includes(needle)\<close>: the needle occurs somewhere in \<open>s\<close>.\<close>

fun str_includes :: "string \<Rightarrow> string \<Rightarrow> bool" where
  "str_includes [] needle = (needle = [])"
| "str_includes (c # cs) needle = (prefix needle (c # cs) \<or> str_includes cs needle)"

definition endsWith :: "string \<Rightarrow> string \<Rightarrow> bool" where
  "endsWith s t = suffix t s"

fun join :: "string \<Rightarrow> string list \<Rightarrow> string" where
  "join sep [] = []"
| "join sep [x] = x"
| "join sep (x # y # ys) = x @ sep @ join sep (y # ys)"

text \<open>The decimal digits of an integer that is not negative.\<close>

function digits :: "int \<Rightarrow> string" where
  "digits n =
     (if n < 10 then [''0123456789'' ! nat n]
      else digits (n div 10) @ [''0123456789'' ! nat (n mod 10)])"
  by pat_completeness auto
termination
  by (relation "measure nat") auto

declare digits.simps [simp del]

text \<open>\<^verbatim>\<open>String(n)\<close> and \<^verbatim>\<open>`${n}`\<close> for an integer \<open>n\<close>.\<close>

definition Number_toString :: "int \<Rightarrow> string" where
  "Number_toString n = (if n < 0 then ''-'' @ digits (- n) else digits n)"

section \<open>The error taxonomy\<close>

text \<open>
  \<^verbatim>\<open>LogicBoxesError\<close> is the base class; the other four extend it, so every
  \<open>lb_error\<close> is an instance of \<^verbatim>\<open>LogicBoxesError\<close>.
\<close>

datatype error_class =
    LogicBoxesError
  | AuthenticationError
  | NotFoundError
  | ValidationError
  | ApiError

record lb_error =
  errClass :: error_class
  message :: string
  statusCode :: "int option"
  apiStatus :: "json option"
  apiMessage :: "json option"

text \<open>
  Whatever a \<^verbatim>\<open>throw\<close> or a rejected promise can carry: one of the library's own
  errors, the platform's \<^verbatim>\<open>TypeError\<close>, \<^verbatim>\<open>SyntaxError\<close> and \<^verbatim>\<open>DOMException\<close>
  (with its name), any other \<^verbatim>\<open>Error\<close>, or a value that is no \<^verbatim>\<open>Error\<close> at all.
\<close>

datatype thrown =
    LB lb_error
  | TypeError string
  | SyntaxError string
  | DOMException string string
  | OtherError string
  | NonError json

fun isLogicBoxesError :: "thrown \<Rightarrow> bool" where
  "isLogicBoxesError (LB _) = True"
| "isLogicBoxesError _ = False"

fun isError :: "thrown \<Rightarrow> bool" where
  "isError (NonError _) = False"
| "isError _ = True"

fun messageOf :: "thrown \<Rightarrow> string" where
  "messageOf (LB e) = message e"
| "messageOf (TypeError m) = m"
| "messageOf (SyntaxError m) = m"
| "messageOf (DOMException n m) = m"
| "messageOf (OtherError m) = m"
| "messageOf (NonError _) = []"

subsection \<open>Converting a value to a string\<close>

text \<open>
  \<^verbatim>\<open>String(v)\<close> on an object calls its \<^verbatim>\<open>toString\<close>. An object parsed from JSON
  that carries a property of that name has a value there, not a function, and the
  conversion throws a \<^verbatim>\<open>TypeError\<close>; an array converts its elements in turn.
\<close>

fun stringable :: "json \<Rightarrow> bool" where
  "stringable (JObj kvs) = (''toString'' \<notin> set (map fst kvs))"
| "stringable (JArr xs) = list_all stringable xs"
| "stringable _ = True"

fun render :: "json \<Rightarrow> string" where
  "render JNull = ''null''"
| "render (JBool b) = (if b then ''true'' else ''false'')"
| "render (JNum n) = Number_toString n"
| "render (JStr s) = s"
| "render (JArr xs) = join '','' (map (\<lambda>x. if x = JNull then [] else render x) xs)"
| "render (JObj kvs) = ''[object Object]''"

definition String_of :: "json \<Rightarrow> thrown + string" where
  "String_of v =
     (if stringable v then Inr (render v)
      else Inl (TypeError ''Cannot convert object to primitive value''))"

subsection \<open>\<^verbatim>\<open>createErrorFromResponse\<close>\<close>

text \<open>
  \<^verbatim>\<open>new C(message, options)\<close> for one of the error classes: the \<^verbatim>\<open>Error\<close>
  constructor converts the message to a string.
\<close>

definition newError ::
  "error_class \<Rightarrow> json \<Rightarrow> int option \<Rightarrow> json option \<Rightarrow> json option \<Rightarrow> thrown + lb_error" where
  "newError c msg code st am =
     (case String_of msg of
        Inl e \<Rightarrow> Inl e
      | Inr m \<Rightarrow>
          Inr \<lparr>errClass = c, message = m, statusCode = code, apiStatus = st, apiMessage = am\<rparr>)"

definition createErrorFromResponse :: "json \<Rightarrow> thrown + lb_error" where
  "createErrorFromResponse response =
     (let status = getProp response ''status'';
          msg = coalesce (getProp response ''message'') (JStr ''Unknown API error'')
      in if status \<noteq> Some (JStr ''ERROR'') then newError ApiError msg None status (Some msg)
         else (case msg of
                 JStr m \<Rightarrow>
                   (let lowerMessage = toLowerCase m
                    in if str_includes lowerMessage ''authentication'' \<or>
                          str_includes lowerMessage ''invalid credentials''
                       then newError AuthenticationError msg None status (Some msg)
                       else if str_includes lowerMessage ''no entity found'' \<or>
                               str_includes lowerMessage ''not found''
                       then newError NotFoundError msg None status (Some msg)
                       else if str_includes lowerMessage ''invalid''
                       then newError ValidationError msg None status (Some msg)
                       else newError ApiError msg None status (Some msg))
               | _ \<Rightarrow> Inl (TypeError ''message.toLowerCase is not a function'')))"

section \<open>The HTTP client\<close>

subsection \<open>Constants and configuration\<close>

definition DEFAULT_BASE_URL :: string where
  "DEFAULT_BASE_URL = ''https://httpapi.com/api/''"

definition MIN_TTL :: int where
  "MIN_TTL = 7200"

definition DEFAULT_TIMEOUT :: int where
  "DEFAULT_TIMEOUT = 30000"

record LogicBoxesConfig =
  authUserId :: string
  apiKey :: string
  baseUrl :: "string option"
  timeout :: "int option"

record LogicBoxesClient =
  client_authUserId :: string
  client_apiKey :: string
  client_baseUrl :: string
  client_timeout :: int

text \<open>The constructor: the base URL gets a trailing slash when it has none.\<close>

definition newClient :: "LogicBoxesConfig \<Rightarrow> LogicBoxesClient" where
  "newClient config =
     (let base = (case baseUrl config of None \<Rightarrow> DEFAULT_BASE_URL | Some b \<Rightarrow> b);
          base' = (if \<not> endsWith base ''/'' then base @ ''/'' else base)
      in \<lparr>client_authUserId = authUserId config,
          client_apiKey = apiKey config,
          client_baseUrl = base',
          client_timeout = (case timeout config of None \<Rightarrow> DEFAULT_TIMEOUT | Some t \<Rightarrow> t)\<rparr>)"

subsection \<open>The platform's URL classes\<close>

text \<open>
  A \<^verbatim>\<open>URL\<close> object: everything but the query (\<open>location\<close>) and the list of
  query parameters that \<^verbatim>\<open>url.searchParams\<close> reads and writes.
\<close>

record url =
  location :: string
  searchParams :: "(string \<times> string) list"

text \<open>
  The parts of the platform that the client calls and that are no code of this
  library are parameters of the model: \<^verbatim>\<open>new URL(path, base)\<close>, which throws a
  \<^verbatim>\<open>TypeError\<close> (here \<open>None\<close>) when the two do not make a URL, the serialisation
  \<^verbatim>\<open>url.toString()\<close>, and the serialisation of a \<^verbatim>\<open>URLSearchParams\<close>.
\<close>

record platform =
  new_URL :: "string \<Rightarrow> string \<Rightarrow> url option"
  URL_toString :: "url \<Rightarrow> string"
  URLSearchParams_toString :: "(string \<times> string) list \<Rightarrow> string"

text \<open>
  \<^verbatim>\<open>searchParams.set(name, value)\<close>: the first parameter of that name takes the
  value and the others of that name are removed; without one, the pair is appended.
\<close>

fun searchParams_set :: "(string \<times> string) list \<Rightarrow> string \<Rightarrow> string \<Rightarrow> (string \<times> string) list" where
  "searchParams_set [] name v = [(name, v)]"
| "searchParams_set ((k, w) # ps) name v =
     (if k = name then (name, v) # filter (\<lambda>p. fst p \<noteq> name) ps
      else (k, w) # searchParams_set ps name v)"

text \<open>\<^verbatim>\<open>searchParams.get(name)\<close>: the value of the first parameter of that name.\<close>

definition searchParams_get :: "(string \<times> string) list \<Rightarrow> string \<Rightarrow> string option" where
  "searchParams_get ps name = map_of ps name"

definition searchParams_has :: "(string \<times> string) list \<Rightarrow> string \<Rightarrow> bool" where
  "searchParams_has ps name = (name \<in> set (map fst ps))"

subsection \<open>\<^verbatim>\<open>buildUrl\<close>\<close>

text \<open>
  A parameter value of type \<^verbatim>\<open>string | number | undefined\<close>; \<open>None\<close> is
  \<^verbatim>\<open>undefined\<close>. A parameter object is the list of its entries as
  \<^verbatim>\<open>Object.entries\<close> enumerates them.
\<close>

datatype param = PStr string | PNum int

fun String_param :: "param \<Rightarrow> string" where
  "String_param (PStr s) = s"
| "String_param (PNum n) = Number_toString n"

type_synonym params = "(string \<times> param option) list"

fun setEntries :: "(string \<times> string) list \<Rightarrow> params \<Rightarrow> (string \<times> string) list" where
  "setEntries sp [] = sp"
| "setEntries sp ((key, v) # es) =
     setEntries (case v of None \<Rightarrow> sp | Some x \<Rightarrow> searchParams_set sp key (String_param x)) es"

text \<open>The \<^verbatim>\<open>URL\<close> object that \<^verbatim>\<open>buildUrl\<close> holds when it returns.\<close>

definition buildUrl_url ::
  "platform \<Rightarrow> LogicBoxesClient \<Rightarrow> string \<Rightarrow> params option \<Rightarrow> thrown + url" where
  "buildUrl_url P c path ps =
     (case new_URL P path (client_baseUrl c) of
        None \<Rightarrow> Inl (TypeError ''Invalid URL'')
      | Some u \<Rightarrow>
          (let sp1 = searchParams_set (searchParams u) ''auth-userid'' (client_authUserId c);
               sp2 = searchParams_set sp1 ''api-key'' (client_apiKey c);
               sp3 = (case ps of None \<Rightarrow> sp2 | Some es \<Rightarrow> setEntries sp2 es)
           in Inr (u\<lparr>searchParams := sp3\<rparr>)))"

definition buildUrl ::
  "platform \<Rightarrow> LogicBoxesClient \<Rightarrow> string \<Rightarrow> params option \<Rightarrow> thrown + string" where
  "buildUrl P c path ps =
     (case buildUrl_url P c path ps of
        Inl e \<Rightarrow> Inl e
      | Inr u \<Rightarrow> Inr (URL_toString P u))"

subsection \<open>\<^verbatim>\<open>request\<close>, \<^verbatim>\<open>get\<close> and \<^verbatim>\<open>post\<close>\<close>

datatype http_method = GET | POST

text \<open>One call of \<^verbatim>\<open>fetch(url, init)\<close>.\<close>

record fetch_call =
  fc_url :: string
  fc_method :: http_method
  fc_headers :: "(string \<times> string) list option"
  fc_body :: "string option"

text \<open>
  What \<^verbatim>\<open>fetch\<close> resolves to: the fields of the response that the client reads, and
  what \<^verbatim>\<open>response.json()\<close> gives, a parsed value or a rejection.
\<close>

record response =
  ok :: bool
  status :: int
  statusText :: string
  json_body :: "thrown + json"

text \<open>
  The network is any function from the calls made so far and the present call to its
  outcome: a rejection (a network failure, or the \<^verbatim>\<open>AbortError\<close> of the timeout) or
  a response. An operation threads the list of calls made and returns what it throws
  (\<open>Inl\<close>) or returns (\<open>Inr\<close>).
\<close>

type_synonym network = "fetch_call list \<Rightarrow> fetch_call \<Rightarrow> thrown + response"

type_synonym 'a io = "fetch_call list \<Rightarrow> (thrown + 'a) \<times> fetch_call list"

definition simpleError :: "error_class \<Rightarrow> string \<Rightarrow> int option \<Rightarrow> lb_error" where
  "simpleError c m code =
     \<lparr>errClass = c, message = m, statusCode = code, apiStatus = None, apiMessage = None\<rparr>"

fun isAbortError :: "thrown \<Rightarrow> bool" where
  "isAbortError (DOMException n m) = (n = ''AbortError'')"
| "isAbortError _ = False"

text \<open>The \<^verbatim>\<open>catch\<close> block of \<^verbatim>\<open>request\<close>: what it throws for what it caught.\<close>

definition catchBlock :: "LogicBoxesClient \<Rightarrow> thrown \<Rightarrow> thrown" where
  "catchBlock c error =
     (if isLogicBoxesError error then error
      else if isAbortError error
      then LB (simpleError LogicBoxesError
                 (''Request timed out after '' @ Number_toString (client_timeout c) @ ''ms'') None)
      else LB (simpleError LogicBoxesError
                 (''Network error: '' @
                    (if isError error then messageOf error else ''Unknown network error'')) None))"

fun formParams :: "(string \<times> string) list \<Rightarrow> (string \<times> param) list \<Rightarrow> (string \<times> string) list" where
  "formParams sp [] = sp"
| "formParams sp ((key, v) # es) = formParams (searchParams_set sp key (String_param v)) es"

definition requestInit ::
  "platform \<Rightarrow> string \<Rightarrow> http_method \<Rightarrow> (string \<times> param) list option \<Rightarrow> fetch_call" where
  "requestInit P u m body =
     (case body of
        Some b \<Rightarrow>
          (if m = POST \<and> length b > 0
           then \<lparr>fc_url = u, fc_method = m,
                 fc_headers = Some [(''Content-Type'', ''application/x-www-form-urlencoded'')],
                 fc_body = Some (URLSearchParams_toString P (formParams [] b))\<rparr>
           else \<lparr>fc_url = u, fc_method = m, fc_headers = None, fc_body = None\<rparr>)
      | None \<Rightarrow> \<lparr>fc_url = u, fc_method = m, fc_headers = None, fc_body = None\<rparr>)"

definition isApiErrorBody :: "json \<Rightarrow> bool" where
  "isApiErrorBody data =
     (isObject data \<and>
      (getProp data ''status'' = Some (JStr ''ERROR'') \<or>
       getProp data ''status'' = Some (JStr ''error'')))"

definition request ::
  "platform \<Rightarrow> network \<Rightarrow> LogicBoxesClient \<Rightarrow> string \<Rightarrow> http_method \<Rightarrow>
   (string \<times> param) list option \<Rightarrow> json io" where
  "request P net c u m body s =
     (let init = requestInit P u m body;
          s' = s @ [init]
      in (case net s init of
            Inl e \<Rightarrow> (Inl (catchBlock c e), s')
          | Inr r \<Rightarrow>
              (if \<not> ok r
               then (Inl (catchBlock c (LB (simpleError LogicBoxesError
                       (''HTTP '' @ Number_toString (status r) @ '': '' @ statusText r)
                       (Some (status r))))), s')
               else (case json_body r of
                       Inl e \<Rightarrow> (Inl (catchBlock c e), s')
                     | Inr data \<Rightarrow>
                         (if isApiErrorBody data
                          then (case createErrorFromResponse data of
                                  Inl e \<Rightarrow> (Inl (catchBlock c e), s')
                                | Inr err \<Rightarrow> (Inl (catchBlock c (LB err)), s'))
                          else (Inr data, s'))))))"

definition get ::
  "platform \<Rightarrow> network \<Rightarrow> LogicBoxesClient \<Rightarrow> string \<Rightarrow> params option \<Rightarrow> json io" where
  "get P net c path ps s =
     (case buildUrl P c path ps of
        Inl e \<Rightarrow> (Inl e, s)
      | Inr u \<Rightarrow> request P net c u GET None s)"

definition post ::
  "platform \<Rightarrow> network \<Rightarrow> LogicBoxesClient \<Rightarrow> string \<Rightarrow> params option \<Rightarrow> json io" where
  "post P net c path ps s =
     (case buildUrl P c path ps of
        Inl e \<Rightarrow> (Inl e, s)
      | Inr u \<Rightarrow> request P net c u POST None s)"

section \<open>Parsing search responses\<close>

text \<open>
  \<^verbatim>\<open>Object.entries(v)\<close> (and \<^verbatim>\<open>Object.keys(v)\<close> followed by \<^verbatim>\<open>v[key]\<close>) for
  any value: \<^verbatim>\<open>null\<close> throws, an array and a string enumerate their indices, a
  number and a boolean have no entries.
\<close>

definition indexKeys :: "nat \<Rightarrow> string list" where
  "indexKeys n = map (\<lambda>i. Number_toString (int i)) [0..<n]"

fun ownEntries :: "json \<Rightarrow> (string \<times> json) list" where
  "ownEntries (JObj kvs) = kvs"
| "ownEntries (JArr xs) = zip (indexKeys (length xs)) xs"
| "ownEntries (JStr cs) = zip (indexKeys (length cs)) (map (\<lambda>c. JStr [c]) cs)"
| "ownEntries _ = []"

definition Object_entries :: "json \<Rightarrow> thrown + (string \<times> json) list" where
  "Object_entries v =
     (if v = JNull then Inl (TypeError ''Cannot convert undefined or null to object'')
      else Inr (ownEntries v))"

text \<open>\<^verbatim>\<open>k in v\<close> for an object \<open>v\<close>.\<close>

definition inOp :: "string \<Rightarrow> json \<Rightarrow> bool" where
  "inOp k v = (getProp v k \<noteq> None)"

text \<open>
  \<^verbatim>\<open>parseInt(s, 10)\<close>: leading white space (of the ASCII range), an optional sign
  and the longest run of decimal digits; \<^verbatim>\<open>NaN\<close>, here \<open>None\<close>, when there is no
  digit.
\<close>

definition isWhiteSpace :: "char \<Rightarrow> bool" where
  "isWhiteSpace c = (c \<in> set [CHR '' '', CHR 0x09, CHR 0x0A, CHR 0x0B, CHR 0x0C, CHR 0x0D])"

definition digitValue :: "char \<Rightarrow> int option" where
  "digitValue c = map_of (zip ''0123456789'' [0, 1, 2, 3, 4, 5, 6, 7, 8, 9]) c"

definition isDigit :: "char \<Rightarrow> bool" where
  "isDigit c = (digitValue c \<noteq> None)"

definition digitsValue :: "string \<Rightarrow> int" where
  "digitsValue ds = foldl (\<lambda>acc c. 10 * acc + (case digitValue c of Some d \<Rightarrow> d | None \<Rightarrow> 0)) 0 ds"

definition parseInt10 :: "string \<Rightarrow> int option" where
  "parseInt10 s =
     (let t = dropWhile isWhiteSpace s;
          neg = (case t of c # _ \<Rightarrow> c = CHR ''-'' | [] \<Rightarrow> False);
          r = (case t of c # cs \<Rightarrow> if c = CHR ''-'' \<or> c = CHR ''+'' then cs else t | [] \<Rightarrow> t);
          ds = takeWhile isDigit r
      in if ds = [] then None
         else Some (if neg then - digitsValue ds else digitsValue ds))"

text \<open>\<^verbatim>\<open>parseInt(String(raw[k] ?? '0'), 10)\<close>\<close>

definition parseCount :: "json \<Rightarrow> string \<Rightarrow> thrown + int option" where
  "parseCount raw k =
     (case String_of (coalesce (getProp raw k) (JStr ''0'')) of
        Inl e \<Rightarrow> Inl e
      | Inr s \<Rightarrow> Inr (parseInt10 s))"

section \<open>The DNS module\<close>

datatype DnsRecordType = A | AAAA | CNAME | MX | TXT | NS | SRV | SOA

text \<open>The string that a value of the type \<^verbatim>\<open>DnsRecordType\<close> is.\<close>

fun typeName :: "DnsRecordType \<Rightarrow> string" where
  "typeName A = ''A''"
| "typeName AAAA = ''AAAA''"
| "typeName CNAME = ''CNAME''"
| "typeName MX = ''MX''"
| "typeName TXT = ''TXT''"
| "typeName NS = ''NS''"
| "typeName SRV = ''SRV''"
| "typeName SOA = ''SOA''"

text \<open>\<^verbatim>\<open>DNS_RECORD_TYPE_MAP[type]\<close>\<close>

fun getApiType :: "DnsRecordType \<Rightarrow> string" where
  "getApiType A = ''ipv4''"
| "getApiType AAAA = ''ipv6''"
| "getApiType CNAME = ''cname''"
| "getApiType MX = ''mx''"
| "getApiType TXT = ''txt''"
| "getApiType NS = ''ns''"
| "getApiType SRV = ''srv''"
| "getApiType SOA = ''soa''"

definition validationError :: "string \<Rightarrow> thrown" where
  "validationError m = LB (simpleError ValidationError m None)"

definition validateTtl :: "int \<Rightarrow> thrown + unit" where
  "validateTtl ttl =
     (if ttl < MIN_TTL
      then Inl (validationError
             (''TTL must be at least '' @ Number_toString MIN_TTL @ '' seconds, got '' @
              Number_toString ttl))
      else Inr ())"

subsection \<open>Searching\<close>

record DnsSearchResult =
  records :: "json list"
  total :: "int option"
  pageSize :: "int option"

text \<open>The loop of \<^verbatim>\<open>parseSearchResponse\<close> over the entries, pushing onto \<open>records\<close>.\<close>

fun pushRecords :: "json list \<Rightarrow> (string \<times> json) list \<Rightarrow> json list" where
  "pushRecords recs [] = recs"
| "pushRecords recs ((key, v) # es) =
     pushRecords (if isObject v \<and> inOp ''host'' v then recs @ [v] else recs) es"

definition parseSearchResponse :: "json \<Rightarrow> thrown + DnsSearchResult" where
  "parseSearchResponse raw =
     (case Object_entries raw of
        Inl e \<Rightarrow> Inl e
      | Inr es \<Rightarrow>
          (let recs = pushRecords [] es
           in (case parseCount raw ''recsindb'' of
                 Inl e \<Rightarrow> Inl e
               | Inr t \<Rightarrow>
                   (case parseCount raw ''recsonpage'' of
                      Inl e \<Rightarrow> Inl e
                    | Inr p \<Rightarrow> Inr \<lparr>records = recs, total = t, pageSize = p\<rparr>))))"

record DnsSearchParams =
  search_domainName :: string
  search_type :: DnsRecordType
  search_host :: "string option"
  search_value :: "string option"
  search_noOfRecords :: "int option"
  search_pageNo :: "int option"

text \<open>A parameter object all of whose values are defined.\<close>

definition defined :: "(string \<times> param) list \<Rightarrow> params option" where
  "defined ps = Some (map (\<lambda>(k, v). (k, Some v)) ps)"

definition searchQuery :: "DnsSearchParams \<Rightarrow> (string \<times> param) list" where
  "searchQuery ps =
     [(''domain-name'', PStr (search_domainName ps)),
      (''type'', PStr (typeName (search_type ps))),
      (''no-of-records'', PNum (case search_noOfRecords ps of None \<Rightarrow> 50 | Some n \<Rightarrow> n)),
      (''page-no'', PNum (case search_pageNo ps of None \<Rightarrow> 1 | Some n \<Rightarrow> n))]
     @ (case search_host ps of None \<Rightarrow> [] | Some h \<Rightarrow> [(''host'', PStr h)])
     @ (case search_value ps of None \<Rightarrow> [] | Some v \<Rightarrow> [(''value'', PStr v)])"

definition searchRecords ::
  "platform \<Rightarrow> network \<Rightarrow> LogicBoxesClient \<Rightarrow> DnsSearchParams \<Rightarrow> DnsSearchResult io" where
  "searchRecords P net c ps s =
     (case get P net c ''dns/manage/search-records.json'' (defined (searchQuery ps)) s of
        (Inl e, s') \<Rightarrow> (Inl e, s')
      | (Inr raw, s') \<Rightarrow>
          (case parseSearchResponse raw of
             Inl e \<Rightarrow> (Inl e, s')
           | Inr r \<Rightarrow> (Inr r, s')))"

subsection \<open>\<^verbatim>\<open>searchAllRecords\<close>\<close>

text \<open>
  The \<^verbatim>\<open>while (hasMore)\<close> loop for one record type. It stops when a search throws
  or when the reported total is not above \<open>pageNo * 50\<close> (a total that is \<^verbatim>\<open>NaN\<close>
  is not above anything); a server that keeps reporting larger totals keeps it running,
  so the loop takes fuel, one unit for each iteration, and is \<open>None\<close> when the fuel ends
  first. It returns what it threw, if anything, with \<open>allRecords\<close> and the calls made.
\<close>

fun searchPages ::
  "nat \<Rightarrow> platform \<Rightarrow> network \<Rightarrow> LogicBoxesClient \<Rightarrow> string \<Rightarrow> DnsRecordType \<Rightarrow> int \<Rightarrow>
   json list \<Rightarrow> fetch_call list \<Rightarrow> ((thrown + unit) \<times> json list \<times> fetch_call list) option" where
  "searchPages 0 P net c domainName ty pageNo allRecords s = None"
| "searchPages (Suc fuel) P net c domainName ty pageNo allRecords s =
     (case searchRecords P net c
             \<lparr>search_domainName = domainName, search_type = ty, search_host = None,
              search_value = None, search_noOfRecords = Some 50, search_pageNo = Some pageNo\<rparr> s of
        (Inl e, s') \<Rightarrow> Some (Inl e, allRecords, s')
      | (Inr result, s') \<Rightarrow>
          (let allRecords' = allRecords @ records result;
               hasMore = (case total result of None \<Rightarrow> False | Some t \<Rightarrow> t > pageNo * 50)
           in if hasMore then searchPages fuel P net c domainName ty (pageNo + 1) allRecords' s'
              else Some (Inr (), allRecords', s')))"

text \<open>The test of the \<^verbatim>\<open>catch\<close> block: the error is skipped, not thrown again.\<close>

definition isNoRecordsError :: "thrown \<Rightarrow> bool" where
  "isNoRecordsError error =
     (isError error \<and>
      (str_includes (messageOf error) ''No records found'' \<or>
       str_includes (messageOf error) ''No Entity found'' \<or>
       str_includes (messageOf error) ''not found''))"

text \<open>The \<^verbatim>\<open>for (const type of allTypes)\<close> loop with its \<^verbatim>\<open>try\<close> and \<^verbatim>\<open>catch\<close>.\<close>

fun searchTypes ::
  "nat \<Rightarrow> platform \<Rightarrow> network \<Rightarrow> LogicBoxesClient \<Rightarrow> string \<Rightarrow> DnsRecordType list \<Rightarrow>
   json list \<Rightarrow> fetch_call list \<Rightarrow> ((thrown + json list) \<times> fetch_call list) option" where
  "searchTypes fuel P net c domainName [] allRecords s = Some (Inr allRecords, s)"
| "searchTypes fuel P net c domainName (ty # tys) allRecords s =
     (case searchPages fuel P net c domainName ty 1 allRecords s of
        None \<Rightarrow> None
      | Some (Inl error, allRecords', s') \<Rightarrow>
          (if isNoRecordsError error
           then searchTypes fuel P net c domainName tys allRecords' s'
           else Some (Inl error, s'))
      | Some (Inr u, allRecords', s') \<Rightarrow>
          searchTypes fuel P net c domainName tys allRecords' s')"

definition allTypes :: "DnsRecordType list" where
  "allTypes = [A, AAAA, CNAME, MX, TXT, NS, SRV, SOA]"

record AllRecords =
  all_records :: "json list"
  all_total :: int

definition searchAllRecords ::
  "nat \<Rightarrow> platform \<Rightarrow> network \<Rightarrow> LogicBoxesClient \<Rightarrow> string \<Rightarrow>
   fetch_call list \<Rightarrow> ((thrown + AllRecords) \<times> fetch_call list) option" where
  "searchAllRecords fuel P net c domainName s =
     (case searchTypes fuel P net c domainName allTypes [] s of
        None \<Rightarrow> None
      | Some (Inl e, s') \<Rightarrow> Some (Inl e, s')
      | Some (Inr allRecords, s') \<Rightarrow>
          Some (Inr \<lparr>all_records = allRecords, all_total = int (length allRecords)\<rparr>, s'))"


definition hasMore :: "DnsSearchResult \<Rightarrow> int \<Rightarrow> bool" where
  "hasMore result pageNo = (case total result of None \<Rightarrow> False | Some t \<Rightarrow> t > pageNo * 50)"


subsection \<open>Adding, updating and deleting records\<close>

record AddDnsRecordParams =
  add_domainName :: string
  add_host :: string
  add_value :: string
  add_ttl :: int
  add_priority :: "int option"
  add_port :: "int option"
  add_weight :: "int option"

record UpdateDnsRecordParams =
  upd_domainName :: string
  upd_host :: string
  upd_currentValue :: string
  upd_newValue :: string
  upd_ttl :: int
  upd_priority :: "int option"
  upd_port :: "int option"
  upd_weight :: "int option"

record UpdateSoaParams =
  soa_domainName :: string
  soa_responsiblePerson :: string
  soa_refresh :: int
  soa_retry :: int
  soa_expire :: int
  soa_ttl :: int

record DeleteDnsRecordParams =
  del_domainName :: string
  del_host :: string
  del_value :: string
  del_port :: "int option"
  del_weight :: "int option"

text \<open>
  Each operation is split at its one call of \<^verbatim>\<open>this.client.post\<close>: the part before
  it, which validates and fills \<open>requestParams\<close> or throws, and the call.
\<close>

definition addRecord_requestParams ::
  "DnsRecordType \<Rightarrow> AddDnsRecordParams \<Rightarrow> thrown + (string \<times> param) list" where
  "addRecord_requestParams ty ps =
     (if ty = SOA
      then Inl (validationError
        ''SOA records cannot be added; use updateSoa() to update the existing SOA record'')
      else (case validateTtl (add_ttl ps) of
        Inl e \<Rightarrow> Inl e
      | Inr _ \<Rightarrow>
          (let rp0 = [(''domain-name'', PStr (add_domainName ps)),
                      (''host'', PStr (add_host ps)),
                      (''value'', PStr (add_value ps)),
                      (''ttl'', PNum (add_ttl ps))]
           in if (ty = MX \<or> ty = SRV) \<and> add_priority ps = None
              then Inl (validationError (''Priority is required for '' @ typeName ty @ '' records''))
              else (let rp1 = (if ty = MX \<or> ty = SRV
                               then rp0 @ (case add_priority ps of
                                             Some p \<Rightarrow> [(''priority'', PNum p)] | None \<Rightarrow> [])
                               else rp0)
                    in if ty = SRV
                       then (case add_port ps of
                               None \<Rightarrow> Inl (validationError ''Port is required for SRV records'')
                             | Some port \<Rightarrow>
                                 (case add_weight ps of
                                    None \<Rightarrow>
                                      Inl (validationError ''Weight is required for SRV records'')
                                  | Some weight \<Rightarrow>
                                      Inr (rp1 @ [(''port'', PNum port),
                                                  (''weight'', PNum weight)])))
                       else Inr rp1))))"

definition addRecord ::
  "platform \<Rightarrow> network \<Rightarrow> LogicBoxesClient \<Rightarrow> DnsRecordType \<Rightarrow> AddDnsRecordParams \<Rightarrow> json io" where
  "addRecord P net c ty ps s =
     (case addRecord_requestParams ty ps of
        Inl e \<Rightarrow> (Inl e, s)
      | Inr rp \<Rightarrow>
          post P net c (''dns/manage/add-'' @ getApiType ty @ ''-record.json'') (defined rp) s)"

definition updateRecord_requestParams ::
  "DnsRecordType \<Rightarrow> UpdateDnsRecordParams \<Rightarrow> thrown + (string \<times> param) list" where
  "updateRecord_requestParams ty ps =
     (if ty = SOA
      then Inl (validationError
        ''SOA records cannot be updated with updateRecord(); use updateSoa() instead'')
      else (case validateTtl (upd_ttl ps) of
        Inl e \<Rightarrow> Inl e
      | Inr _ \<Rightarrow>
          (let rp0 = [(''domain-name'', PStr (upd_domainName ps)),
                      (''host'', PStr (upd_host ps)),
                      (''current-value'', PStr (upd_currentValue ps)),
                      (''new-value'', PStr (upd_newValue ps)),
                      (''ttl'', PNum (upd_ttl ps))];
               rp1 = (if ty = MX \<or> ty = SRV
                      then rp0 @ (case upd_priority ps of
                                    Some p \<Rightarrow> [(''priority'', PNum p)] | None \<Rightarrow> [])
                      else rp0);
               rp2 = (if ty = SRV
                      then rp1 @ (case upd_port ps of
                                    Some p \<Rightarrow> [(''port'', PNum p)] | None \<Rightarrow> [])
                               @ (case upd_weight ps of
                                    Some w \<Rightarrow> [(''weight'', PNum w)] | None \<Rightarrow> [])
                      else rp1)
           in Inr rp2)))"

definition updateRecord ::
  "platform \<Rightarrow> network \<Rightarrow> LogicBoxesClient \<Rightarrow> DnsRecordType \<Rightarrow> UpdateDnsRecordParams \<Rightarrow> json io" where
  "updateRecord P net c ty ps s =
     (case updateRecord_requestParams ty ps of
        Inl e \<Rightarrow> (Inl e, s)
      | Inr rp \<Rightarrow>
          post P net c (''dns/manage/update-'' @ getApiType ty @ ''-record.json'') (defined rp) s)"

definition updateSoa_requestParams :: "UpdateSoaParams \<Rightarrow> (string \<times> param) list" where
  "updateSoa_requestParams ps =
     [(''domain-name'', PStr (soa_domainName ps)),
      (''responsible-person'', PStr (soa_responsiblePerson ps)),
      (''refresh'', PNum (soa_refresh ps)),
      (''retry'', PNum (soa_retry ps)),
      (''expire'', PNum (soa_expire ps)),
      (''ttl'', PNum (soa_ttl ps))]"

definition updateSoa ::
  "platform \<Rightarrow> network \<Rightarrow> LogicBoxesClient \<Rightarrow> UpdateSoaParams \<Rightarrow> json io" where
  "updateSoa P net c ps s =
     post P net c ''dns/manage/update-soa-record.json'' (defined (updateSoa_requestParams ps)) s"

definition deleteRecord_requestParams ::
  "DnsRecordType \<Rightarrow> DeleteDnsRecordParams \<Rightarrow> thrown + (string \<times> param) list" where
  "deleteRecord_requestParams ty ps =
     (if ty = SOA then Inl (validationError ''SOA records cannot be deleted'')
      else (let rp0 = [(''domain-name'', PStr (del_domainName ps)),
                       (''host'', PStr (del_host ps)),
                       (''value'', PStr (del_value ps))]
            in if ty = SRV
               then (case del_port ps of
                       None \<Rightarrow> Inl (validationError ''Port is required when deleting SRV records'')
                     | Some port \<Rightarrow>
                         (case del_weight ps of
                            None \<Rightarrow>
                              Inl (validationError ''Weight is required when deleting SRV records'')
                          | Some weight \<Rightarrow>
                              Inr (rp0 @ [(''port'', PNum port), (''weight'', PNum weight)])))
               else Inr rp0))"

definition deleteRecord ::
  "platform \<Rightarrow> network \<Rightarrow> LogicBoxesClient \<Rightarrow> DnsRecordType \<Rightarrow> DeleteDnsRecordParams \<Rightarrow> json io" where
  "deleteRecord P net c ty ps s =
     (case deleteRecord_requestParams ty ps of
        Inl e \<Rightarrow> (Inl e, s)
      | Inr rp \<Rightarrow>
          post P net c (''dns/manage/delete-'' @ getApiType ty @ ''-record.json'') (defined rp) s)"

section \<open>The customer module\<close>

record Customer =
  customerid :: string
  username :: string
  name :: string
  company :: string
  city :: string
  state :: string
  country :: string
  customerstatus :: string
  totalreceipts :: string
  websitecount :: "string option"

definition bindE :: "thrown + 'a \<Rightarrow> ('a \<Rightarrow> thrown + 'b) \<Rightarrow> thrown + 'b" where
  "bindE r f = (case r of Inl e \<Rightarrow> Inl e | Inr x \<Rightarrow> f x)"

text \<open>\<^verbatim>\<open>String(record[k] ?? '')\<close>\<close>

definition stringField :: "json \<Rightarrow> string \<Rightarrow> thrown + string" where
  "stringField record k = String_of (coalesce (getProp record k) (JStr []))"

text \<open>The object literal pushed for one entry; its fields are evaluated in order.\<close>

definition toCustomer :: "json \<Rightarrow> thrown + Customer" where
  "toCustomer record =
     bindE (stringField record ''customer.customerid'') (\<lambda>f1.
     bindE (stringField record ''customer.username'') (\<lambda>f2.
     bindE (stringField record ''customer.name'') (\<lambda>f3.
     bindE (stringField record ''customer.company'') (\<lambda>f4.
     bindE (stringField record ''customer.city'') (\<lambda>f5.
     bindE (stringField record ''customer.state'') (\<lambda>f6.
     bindE (stringField record ''customer.country'') (\<lambda>f7.
     bindE (stringField record ''customer.customerstatus'') (\<lambda>f8.
     bindE (stringField record ''customer.totalreceipts'') (\<lambda>f9.
     bindE (case getProp record ''customer.websitecount'' of
              None \<Rightarrow> Inr None
            | Some v \<Rightarrow> bindE (String_of v) (\<lambda>w. Inr (Some w))) (\<lambda>f10.
     Inr \<lparr>customerid = f1, username = f2, name = f3, company = f4, city = f5,
          state = f6, country = f7, customerstatus = f8, totalreceipts = f9,
          websitecount = f10\<rparr>))))))))))"

fun pushCustomers :: "Customer list \<Rightarrow> (string \<times> json) list \<Rightarrow> thrown + Customer list" where
  "pushCustomers customers [] = Inr customers"
| "pushCustomers customers ((key, entry) # es) =
     (if \<not> isObject entry then pushCustomers customers es
      else (case toCustomer entry of
              Inl e \<Rightarrow> Inl e
            | Inr cu \<Rightarrow> pushCustomers (customers @ [cu]) es))"

record CustomerSearchResult =
  customers :: "Customer list"
  customers_total :: "int option"
  customers_pageSize :: "int option"

definition Customer_parseSearchResponse :: "json \<Rightarrow> thrown + CustomerSearchResult" where
  "Customer_parseSearchResponse raw =
     bindE (Object_entries raw) (\<lambda>es.
     bindE (pushCustomers [] es) (\<lambda>cs.
     bindE (parseCount raw ''recsindb'') (\<lambda>t.
     bindE (parseCount raw ''recsonpage'') (\<lambda>p.
     Inr \<lparr>customers = cs, customers_total = t, customers_pageSize = p\<rparr>))))"

text \<open>An omitted \<open>params\<close> is the record all of whose fields are \<^verbatim>\<open>undefined\<close>.\<close>

record CustomerSearchParams =
  cs_noOfRecords :: "int option"
  cs_pageNo :: "int option"
  cs_customerId :: "int option"
  cs_username :: "string option"
  cs_name :: "string option"
  cs_company :: "string option"
  cs_city :: "string option"
  cs_state :: "string option"
  cs_status :: "string option"

definition Customer_searchQuery :: "CustomerSearchParams \<Rightarrow> params" where
  "Customer_searchQuery ps =
     [(''no-of-records'', Some (PNum (case cs_noOfRecords ps of None \<Rightarrow> 25 | Some n \<Rightarrow> n))),
      (''page-no'', Some (PNum (case cs_pageNo ps of None \<Rightarrow> 1 | Some n \<Rightarrow> n))),
      (''customer-id'', map_option PNum (cs_customerId ps)),
      (''username'', map_option PStr (cs_username ps)),
      (''name'', map_option PStr (cs_name ps)),
      (''company'', map_option PStr (cs_company ps)),
      (''city'', map_option PStr (cs_city ps)),
      (''state'', map_option PStr (cs_state ps)),
      (''status'', map_option PStr (cs_status ps))]"

definition Customer_search ::
  "platform \<Rightarrow> network \<Rightarrow> LogicBoxesClient \<Rightarrow> CustomerSearchParams \<Rightarrow> CustomerSearchResult io" where
  "Customer_search P net c ps s =
     (case get P net c ''customers/search.json'' (Some (Customer_searchQuery ps)) s of
        (Inl e, s') \<Rightarrow> (Inl e, s')
      | (Inr raw, s') \<Rightarrow>
          (case Customer_parseSearchResponse raw of
             Inl e \<Rightarrow> (Inl e, s')
           | Inr r \<Rightarrow> (Inr r, s')))"

section \<open>The domain module\<close>

text \<open>
  The object \<open>domain\<close> that \<^verbatim>\<open>parseSearchResponse\<close> builds by assignments
  \<^verbatim>\<open>domain[cleanKey] = value\<close>, starting from \<^verbatim>\<open>{}\<close>: its own properties, in the
  order of their creation, and its prototype. (JavaScript enumerates names that are
  array indices before the others; the order of \<open>own\<close> is read by no property stated
  below, which read the object by name.) The prototype matters for one key only:
  \<^verbatim>\<open>__proto__\<close> is an accessor of \<^verbatim>\<open>Object.prototype\<close>, and an assignment that
  reaches it replaces the prototype by the value (an object or \<^verbatim>\<open>null\<close>; any other
  value is ignored) in place of creating a property.
\<close>

datatype prototype = ObjectPrototype | NullPrototype | ValuePrototype json

record js_object =
  own :: "(string \<times> json) list"
  proto :: prototype

definition emptyObject :: js_object where
  "emptyObject = \<lparr>own = [], proto = ObjectPrototype\<rparr>"

fun ownSet :: "(string \<times> json) list \<Rightarrow> string \<Rightarrow> json \<Rightarrow> (string \<times> json) list" where
  "ownSet [] k v = [(k, v)]"
| "ownSet ((k', w) # ps) k v = (if k' = k then (k, v) # ps else (k', w) # ownSet ps k v)"

text \<open>
  The assignment finds the accessor when neither the object nor its prototype, a value
  parsed from JSON, has a property named \<^verbatim>\<open>__proto__\<close> of its own, and the prototype
  chain still ends in \<^verbatim>\<open>Object.prototype\<close>.
\<close>

definition reachesProtoSetter :: "js_object \<Rightarrow> bool" where
  "reachesProtoSetter d =
     (''__proto__'' \<notin> set (map fst (own d)) \<and>
      (case proto d of
         ObjectPrototype \<Rightarrow> True
       | NullPrototype \<Rightarrow> False
       | ValuePrototype v \<Rightarrow> \<not> inOp ''__proto__'' v))"

definition setProp :: "js_object \<Rightarrow> string \<Rightarrow> json \<Rightarrow> js_object" where
  "setProp d k v =
     (if k = ''__proto__'' \<and> reachesProtoSetter d
      then (if v = JNull then d\<lparr>proto := NullPrototype\<rparr>
            else if isObject v then d\<lparr>proto := ValuePrototype v\<rparr>
            else d)
      else d\<lparr>own := ownSet (own d) k v\<rparr>)"

text \<open>
  Reading \<^verbatim>\<open>domain.description\<close> and \<^verbatim>\<open>domain.domainname\<close>: an own property, or
  else one inherited from a prototype installed as above.
\<close>

definition readProp :: "js_object \<Rightarrow> string \<Rightarrow> json option" where
  "readProp d k =
     (case map_of (own d) k of
        Some v \<Rightarrow> Some v
      | None \<Rightarrow> (case proto d of ValuePrototype v \<Rightarrow> getProp v k | _ \<Rightarrow> None))"

text \<open>
  \<^verbatim>\<open>dotIndex >= 0 ? dottedKey.slice(dotIndex + 1) : dottedKey\<close> with
  \<^verbatim>\<open>dotIndex = dottedKey.indexOf('.')\<close>
\<close>

definition cleanKey :: "string \<Rightarrow> string" where
  "cleanKey dottedKey =
     (if CHR ''.'' \<in> set dottedKey then tl (dropWhile (\<lambda>c. c \<noteq> CHR ''.'') dottedKey)
      else dottedKey)"

fun stripKeys :: "js_object \<Rightarrow> (string \<times> json) list \<Rightarrow> js_object" where
  "stripKeys d [] = d"
| "stripKeys d ((dottedKey, v) # es) = stripKeys (setProp d (cleanKey dottedKey) v) es"

definition mapDescription :: "js_object \<Rightarrow> js_object" where
  "mapDescription d =
     (if truthy (readProp d ''description'') \<and> \<not> truthy (readProp d ''domainname'')
      then (case readProp d ''description'' of
              Some v \<Rightarrow> setProp d ''domainname'' v
            | None \<Rightarrow> d)
      else d)"

text \<open>The body of the loop for one entry that is an object.\<close>

definition toDomain :: "json \<Rightarrow> js_object" where
  "toDomain entry = mapDescription (stripKeys emptyObject (ownEntries entry))"

fun pushDomains :: "js_object list \<Rightarrow> (string \<times> json) list \<Rightarrow> js_object list" where
  "pushDomains domains [] = domains"
| "pushDomains domains ((key, entry) # es) =
     (if \<not> isObject entry then pushDomains domains es
      else pushDomains (domains @ [toDomain entry]) es)"

record DomainSearchResult =
  domains :: "js_object list"
  domains_total :: "int option"
  domains_pageSize :: "int option"

definition Domain_parseSearchResponse :: "json \<Rightarrow> thrown + DomainSearchResult" where
  "Domain_parseSearchResponse raw =
     bindE (Object_entries raw) (\<lambda>es.
     (let ds = pushDomains [] es in
     bindE (parseCount raw ''recsindb'') (\<lambda>t.
     bindE (parseCount raw ''recsonpage'') (\<lambda>p.
     Inr \<lparr>domains = ds, domains_total = t, domains_pageSize = p\<rparr>))))"

record DomainSearchParams =
  ds_noOfRecords :: "int option"
  ds_pageNo :: "int option"
  ds_customerId :: "int option"
  ds_domainName :: "string option"
  ds_status :: "string option"

definition Domain_searchQuery :: "DomainSearchParams \<Rightarrow> params" where
  "Domain_searchQuery ps =
     [(''no-of-records'', Some (PNum (case ds_noOfRecords ps of None \<Rightarrow> 25 | Some n \<Rightarrow> n))),
      (''page-no'', Some (PNum (case ds_pageNo ps of None \<Rightarrow> 1 | Some n \<Rightarrow> n))),
      (''customer-id'', map_option PNum (ds_customerId ps)),
      (''domain-name'', map_option PStr (ds_domainName ps)),
      (''status'', map_option PStr (ds_status ps))]"

definition Domain_search ::
  "platform \<Rightarrow> network \<Rightarrow> LogicBoxesClient \<Rightarrow> DomainSearchParams \<Rightarrow> DomainSearchResult io" where
  "Domain_search P net c ps s =
     (case get P net c ''domains/search.json'' (Some (Domain_searchQuery ps)) s of
        (Inl e, s') \<Rightarrow> (Inl e, s')
      | (Inr raw, s') \<Rightarrow>
          (case Domain_parseSearchResponse raw of
             Inl e \<Rightarrow> (Inl e, s')
           | Inr r \<Rightarrow> (Inr r, s')))"

section \<open>Numbered keys\<close>

text \<open>
  The search endpoints file their entries under the numbered keys \<^verbatim>\<open>"1"\<close>,
  \<^verbatim>\<open>"2"\<close> and so on, beside the pagination fields. A key is numbered when it is a
  run of decimal digits that is not empty. The parsers do not look at the keys; the
  predicate serves to state when their result is the list of the numbered entries.
\<close>

definition numberedKey :: "string \<Rightarrow> bool" where
  "numberedKey k = (k \<noteq> [] \<and> list_all isDigit k)"

section \<open>Instances for the examples\<close>

text \<open>
  An instance of the platform, used where an example needs one. It agrees with the
  platform on the inputs of the examples: a base \<^verbatim>\<open>scheme://host/dir/\<close> and a relative
  path of plain characters are concatenated, a base without a scheme is no URL, and the
  serialisations write \<^verbatim>\<open>name=value\<close> pairs joined by \<^verbatim>\<open>&\<close>, which is what the
  platform writes for names and values that need no escaping.
\<close>

definition queryString :: "(string \<times> string) list \<Rightarrow> string" where
  "queryString ps = join ''&'' (map (\<lambda>(k, v). k @ ''='' @ v) ps)"

definition samplePlatform :: platform where
  "samplePlatform =
     \<lparr>new_URL = (\<lambda>path base.
         if str_includes base ''://'' then Some \<lparr>location = base @ path, searchParams = []\<rparr>
         else None),
      URL_toString = (\<lambda>u. location u @ ''?'' @ queryString (searchParams u)),
      URLSearchParams_toString = queryString\<rparr>"

definition sampleClient :: LogicBoxesClient where
  "sampleClient =
     newClient \<lparr>authUserId = ''123456'', apiKey = ''abc123'', baseUrl = None, timeout = None\<rparr>"

text \<open>A network that answers every call with the same successful response body.\<close>

definition answering :: "json \<Rightarrow> network" where
  "answering body = (\<lambda>s call. Inr \<lparr>ok = True, status = 200, statusText = ''OK'', json_body = Inr body\<rparr>)"


section \<open>Properties of the error taxonomy\<close>

lemma str_includes_iff: "str_includes s n \<longleftrightarrow> (\<exists>p q. s = p @ n @ q)"
proof (induction s)
  case Nil
  then show ?case by auto
next
  case (Cons c cs)
  show ?case
  proof
    assume "str_includes (c # cs) n"
    then consider "prefix n (c # cs)" | "str_includes cs n" by auto
    then show "\<exists>p q. c # cs = p @ n @ q"
    proof cases
      case 1
      then obtain q where "c # cs = n @ q" by (auto simp: prefix_def)
      then have "c # cs = [] @ n @ q" by simp
      then show ?thesis by blast
    next
      case 2
      with Cons.IH obtain p q where "cs = p @ n @ q" by blast
      then have "c # cs = (c # p) @ n @ q" by simp
      then show ?thesis by blast
    qed
  next
    assume "\<exists>p q. c # cs = p @ n @ q"
    then obtain p q where pq: "c # cs = p @ n @ q" by blast
    show "str_includes (c # cs) n"
    proof (cases p)
      case Nil
      with pq have "prefix n (c # cs)" by (simp add: prefix_def)
      then show ?thesis by simp
    next
      case (Cons a p')
      with pq have "cs = p' @ n @ q" by simp
      with Cons.IH have "str_includes cs n" by blast
      then show ?thesis by simp
    qed
  qed
qed




section \<open>Properties of the HTTP client\<close>

lemma catchBlock_isLogicBoxesError: "isLogicBoxesError (catchBlock c e)"
  by (simp add: catchBlock_def)

lemma catchBlock_LB: "catchBlock c (LB e) = LB e"
  by (simp add: catchBlock_def)

lemma request_calls: "snd (request P net c u m body s) = s @ [requestInit P u m body]"
  by (simp add: request_def Let_def split: sum.splits)

lemma request_throws:
  "fst (request P net c u m body s) = Inl e \<Longrightarrow> isLogicBoxesError e"
  by (auto simp: request_def Let_def catchBlock_isLogicBoxesError split: sum.splits if_splits)

lemma request_rejected:
  "net s (requestInit P u m body) = Inl e \<Longrightarrow>
   fst (request P net c u m body s) = Inl (catchBlock c e)"
  by (simp add: request_def Let_def)

lemma request_not_ok:
  "net s (requestInit P u m body) = Inr r \<Longrightarrow> \<not> ok r \<Longrightarrow>
   fst (request P net c u m body s) =
     Inl (LB \<lparr>errClass = LogicBoxesError,
              message = ''HTTP '' @ Number_toString (status r) @ '': '' @ statusText r,
              statusCode = Some (status r), apiStatus = None, apiMessage = None\<rparr>)"
  by (simp add: request_def Let_def catchBlock_LB simpleError_def)

lemma request_json_rejected:
  "net s (requestInit P u m body) = Inr r \<Longrightarrow> ok r \<Longrightarrow> json_body r = Inl e \<Longrightarrow>
   fst (request P net c u m body s) = Inl (catchBlock c e)"
  by (simp add: request_def Let_def)

lemma request_api_error:
  "net s (requestInit P u m body) = Inr r \<Longrightarrow> ok r \<Longrightarrow> json_body r = Inr d \<Longrightarrow>
   isApiErrorBody d \<Longrightarrow> createErrorFromResponse d = Inr err \<Longrightarrow>
   fst (request P net c u m body s) = Inl (LB err)"
  by (simp add: request_def Let_def catchBlock_LB)

lemma request_success:
  "net s (requestInit P u m body) = Inr r \<Longrightarrow> ok r \<Longrightarrow> json_body r = Inr d \<Longrightarrow>
   \<not> isApiErrorBody d \<Longrightarrow> fst (request P net c u m body s) = Inr d"
  by (simp add: request_def Let_def)

lemma requestInit_no_body:
  "requestInit P u m None = \<lparr>fc_url = u, fc_method = m, fc_headers = None, fc_body = None\<rparr>"
  by (simp add: requestInit_def)

text \<open>
  Claim C7, amended. \<^verbatim>\<open>request\<close> calls \<^verbatim>\<open>fetch\<close> exactly once, and whatever it throws
  is a \<^verbatim>\<open>LogicBoxesError\<close> or one of its subclasses: a rejected \<^verbatim>\<open>fetch\<close> (a network
  failure, or the abort of the timeout) and a rejected \<^verbatim>\<open>response.json()\<close> go through
  the \<^verbatim>\<open>catch\<close> block, which only throws such errors; a response that is not \<^verbatim>\<open>ok\<close>
  gives the \<^verbatim>\<open>HTTP\<close> error with its status code; a body with status \<^verbatim>\<open>ERROR\<close> or
  \<^verbatim>\<open>error\<close> gives the error made from it; any other body of an \<^verbatim>\<open>ok\<close> response is
  returned as parsed. \<^verbatim>\<open>get\<close> and \<^verbatim>\<open>post\<close> are that one \<^verbatim>\<open>request\<close> when the URL can
  be built; when \<^verbatim>\<open>new URL\<close> rejects the path and the base, they throw what it threw
  and call \<^verbatim>\<open>fetch\<close> not at all.
\<close>

theorem request_fetches_once_and_throws_LogicBoxesError:
  "snd (request P net c u m body s) = s @ [requestInit P u m body] \<and>
   (\<forall>e. fst (request P net c u m body s) = Inl e \<longrightarrow> isLogicBoxesError e) \<and>
   (\<forall>e. net s (requestInit P u m body) = Inl e \<longrightarrow>
      fst (request P net c u m body s) = Inl (catchBlock c e)) \<and>
   (\<forall>r. net s (requestInit P u m body) = Inr r \<and> \<not> ok r \<longrightarrow>
      fst (request P net c u m body s) =
        Inl (LB \<lparr>errClass = LogicBoxesError,
                 message = ''HTTP '' @ Number_toString (status r) @ '': '' @ statusText r,
                 statusCode = Some (status r), apiStatus = None, apiMessage = None\<rparr>)) \<and>
   (\<forall>r e. net s (requestInit P u m body) = Inr r \<and> ok r \<and> json_body r = Inl e \<longrightarrow>
      fst (request P net c u m body s) = Inl (catchBlock c e)) \<and>
   (\<forall>r d err. net s (requestInit P u m body) = Inr r \<and> ok r \<and> json_body r = Inr d \<and>
        isApiErrorBody d \<and> createErrorFromResponse d = Inr err \<longrightarrow>
      fst (request P net c u m body s) = Inl (LB err)) \<and>
   (\<forall>r d. net s (requestInit P u m body) = Inr r \<and> ok r \<and> json_body r = Inr d \<and>
        \<not> isApiErrorBody d \<longrightarrow>
      fst (request P net c u m body s) = Inr d) \<and>
   (\<forall>e. isLogicBoxesError (catchBlock c e)) \<and>
   (\<forall>u'. buildUrl P c path ps = Inr u' \<longrightarrow>
      get P net c path ps s = request P net c u' GET None s \<and>
      post P net c path ps s = request P net c u' POST None s) \<and>
   (\<forall>e. buildUrl P c path ps = Inl e \<longrightarrow>
      get P net c path ps s = (Inl e, s) \<and> post P net c path ps s = (Inl e, s))"
  using request_calls [of P net c u m body s] request_throws [of P net c u m body s]
    request_rejected [of net s P u m body _ c] request_not_ok [of net s P u m body _ c]
    request_json_rejected [of net s P u m body _ _ c]
    request_api_error [of net s P u m body _ _ _ c]
    request_success [of net s P u m body _ _ c]
  by (simp add: get_def post_def catchBlock_isLogicBoxesError)

theorem request_fetches_once_and_throws_LogicBoxesError_witness:
  "fst (request samplePlatform (answering (JObj [(''status'', JStr ''Success'')])) sampleClient
          ''https://httpapi.com/api/dns/activate.json'' POST None []) =
     Inr (JObj [(''status'', JStr ''Success'')]) \<and>
   snd (request samplePlatform (answering (JObj [(''status'', JStr ''Success'')])) sampleClient
          ''https://httpapi.com/api/dns/activate.json'' POST None []) =
     [\<lparr>fc_url = ''https://httpapi.com/api/dns/activate.json'', fc_method = POST,
       fc_headers = None, fc_body = None\<rparr>] \<and>
   fst (request samplePlatform
          (\<lambda>s call. Inr \<lparr>ok = False, status = 500, statusText = ''Internal Server Error'',
                           json_body = Inl (SyntaxError ''Unexpected token'')\<rparr>)
          sampleClient ''https://httpapi.com/api/dns/activate.json'' POST None []) =
     Inl (LB \<lparr>errClass = LogicBoxesError, message = ''HTTP 500: Internal Server Error'',
              statusCode = Some 500, apiStatus = None, apiMessage = None\<rparr>) \<and>
   fst (request samplePlatform
          (\<lambda>s call. Inl (DOMException ''AbortError'' ''This operation was aborted''))
          sampleClient ''https://httpapi.com/api/dns/activate.json'' POST None []) =
     Inl (LB \<lparr>errClass = LogicBoxesError, message = ''Request timed out after 30000ms'',
              statusCode = None, apiStatus = None, apiMessage = None\<rparr>)"
proof -
  let ?u = "''https://httpapi.com/api/dns/activate.json''"
  let ?b = "JObj [(''status'', JStr ''Success'')]"
  let ?down = "(\<lambda>s call. Inr \<lparr>ok = False, status = 500, statusText = ''Internal Server Error'',
                           json_body = Inl (SyntaxError ''Unexpected token'')\<rparr>) :: network"
  let ?late = "(\<lambda>s call. Inl (DOMException ''AbortError'' ''This operation was aborted'')) :: network"
  let ?call = "\<lparr>fc_url = ?u, fc_method = POST, fc_headers = None, fc_body = None\<rparr>"
  have i: "requestInit samplePlatform ?u POST None = ?call"
    by (simp add: requestInit_def)
  have b: "\<not> isApiErrorBody ?b" by (simp add: isApiErrorBody_def)
  have n1: "Number_toString 500 = ''500''" by code_simp
  have n2: "Number_toString (client_timeout sampleClient) = ''30000''" by code_simp
  have t: "catchBlock sampleClient (DOMException ''AbortError'' ''This operation was aborted'') =
     LB \<lparr>errClass = LogicBoxesError, message = ''Request timed out after 30000ms'',
         statusCode = None, apiStatus = None, apiMessage = None\<rparr>"
    by (simp add: catchBlock_def simpleError_def n2)
  note ok = request_fetches_once_and_throws_LogicBoxesError
         [of samplePlatform "answering ?b" sampleClient ?u POST None "[]"]
  have 2: "snd (request samplePlatform (answering ?b) sampleClient ?u POST None []) = [?call]"
    using ok [THEN conjunct1] by (simp only: i append_Nil)
  have a: "answering ?b [] (requestInit samplePlatform ?u POST None) =
      Inr \<lparr>ok = True, status = 200, statusText = ''OK'', json_body = Inr ?b\<rparr>"
    by (simp add: answering_def)
  have 1: "fst (request samplePlatform (answering ?b) sampleClient ?u POST None []) = Inr ?b"
    by (rule ok [THEN conjunct2, THEN conjunct2, THEN conjunct2, THEN conjunct2, THEN conjunct2,
                 THEN conjunct2, THEN conjunct1, rule_format,
                 of "\<lparr>ok = True, status = 200, statusText = ''OK'', json_body = Inr ?b\<rparr>" ?b])
       (simp add: a b)
  note down = request_fetches_once_and_throws_LogicBoxesError
         [of samplePlatform ?down sampleClient ?u POST None "[]"]
  have "fst (request samplePlatform ?down sampleClient ?u POST None []) =
     Inl (LB \<lparr>errClass = LogicBoxesError,
              message = ''HTTP '' @ Number_toString 500 @ '': '' @ ''Internal Server Error'',
              statusCode = Some 500, apiStatus = None, apiMessage = None\<rparr>)"
    using down [THEN conjunct2, THEN conjunct2, THEN conjunct2, THEN conjunct1, rule_format,
                 of "\<lparr>ok = False, status = 500, statusText = ''Internal Server Error'',
                           json_body = Inl (SyntaxError ''Unexpected token'')\<rparr>"]
    by simp
  then have 3: "fst (request samplePlatform ?down sampleClient ?u POST None []) =
     Inl (LB \<lparr>errClass = LogicBoxesError, message = ''HTTP 500: Internal Server Error'',
              statusCode = Some 500, apiStatus = None, apiMessage = None\<rparr>)"
    by (simp add: n1)
  note late = request_fetches_once_and_throws_LogicBoxesError
         [of samplePlatform ?late sampleClient ?u POST None "[]"]
  have "fst (request samplePlatform ?late sampleClient ?u POST None []) =
     Inl (catchBlock sampleClient (DOMException ''AbortError'' ''This operation was aborted''))"
    by (rule late [THEN conjunct2, THEN conjunct2, THEN conjunct1, rule_format]) simp
  then have 4: "fst (request samplePlatform ?late sampleClient ?u POST None []) =
     Inl (LB \<lparr>errClass = LogicBoxesError, message = ''Request timed out after 30000ms'',
              statusCode = None, apiStatus = None, apiMessage = None\<rparr>)"
    by (simp only: t)
  from 1 2 3 4 show ?thesis by (intro conjI)
qed

text \<open>
  The claim as stated fails for a client whose base URL is no URL: \<^verbatim>\<open>get\<close> throws the
  \<^verbatim>\<open>TypeError\<close> of the \<^verbatim>\<open>URL\<close> constructor, which is no \<^verbatim>\<open>LogicBoxesError\<close>, and
  no \<^verbatim>\<open>fetch\<close> is attempted.
\<close>

theorem get_without_fetch_counterexample:
  "get samplePlatform (answering JNull)
     (newClient \<lparr>authUserId = ''123456'', apiKey = ''abc123'', baseUrl = Some ''nonsense'',
                timeout = None\<rparr>)
     ''customers/search.json'' None [] = (Inl (TypeError ''Invalid URL''), [])"
  by code_simp

section \<open>Properties of the DNS operations\<close>

text \<open>
  Claim C4. With the record type \<^verbatim>\<open>SOA\<close>, \<^verbatim>\<open>addRecord\<close> and \<^verbatim>\<open>deleteRecord\<close> throw
  a \<^verbatim>\<open>ValidationError\<close> whatever the parameters, and the list of calls is as it was:
  no HTTP request is issued.
\<close>

theorem SOA_cannot_be_added_or_deleted:
  "addRecord P net c SOA aps s =
     (Inl (LB \<lparr>errClass = ValidationError,
               message = ''SOA records cannot be added; use updateSoa() to update the existing SOA record'',
               statusCode = None, apiStatus = None, apiMessage = None\<rparr>), s) \<and>
   deleteRecord P net c SOA dps s =
     (Inl (LB \<lparr>errClass = ValidationError, message = ''SOA records cannot be deleted'',
               statusCode = None, apiStatus = None, apiMessage = None\<rparr>), s)"
  by (simp add: addRecord_def addRecord_requestParams_def deleteRecord_def
        deleteRecord_requestParams_def validationError_def simpleError_def)

theorem SOA_cannot_be_added_or_deleted_witness:
  "addRecord samplePlatform (answering JNull) sampleClient SOA
     \<lparr>add_domainName = ''example.com'', add_host = ''@'', add_value = ''ns1.example.com'',
      add_ttl = 14400, add_priority = None, add_port = None, add_weight = None\<rparr> [] =
     (Inl (LB \<lparr>errClass = ValidationError,
               message = ''SOA records cannot be added; use updateSoa() to update the existing SOA record'',
               statusCode = None, apiStatus = None, apiMessage = None\<rparr>), []) \<and>
   deleteRecord samplePlatform (answering JNull) sampleClient SOA
     \<lparr>del_domainName = ''example.com'', del_host = ''@'', del_value = ''ns1.example.com'',
      del_port = None, del_weight = None\<rparr> [] =
     (Inl (LB \<lparr>errClass = ValidationError, message = ''SOA records cannot be deleted'',
               statusCode = None, apiStatus = None, apiMessage = None\<rparr>), [])"
  by (rule SOA_cannot_be_added_or_deleted)

lemma validateTtl_low:
  "ttl < 7200 \<Longrightarrow> \<exists>e. validateTtl ttl = Inl (LB e) \<and> errClass e = ValidationError"
  by (simp add: validateTtl_def MIN_TTL_def validationError_def simpleError_def)

lemma validateTtl_ok: "7200 \<le> ttl \<Longrightarrow> validateTtl ttl = Inr ()"
  by (simp add: validateTtl_def MIN_TTL_def)

lemma addRecord_low_ttl:
  assumes "add_ttl aps < 7200"
  shows "\<exists>e. addRecord P net c ty aps s = (Inl (LB e), s) \<and> errClass e = ValidationError"
proof (cases "ty = SOA")
  case True
  then show ?thesis
    by (simp add: addRecord_def addRecord_requestParams_def validationError_def simpleError_def)
next
  case False
  from validateTtl_low [OF assms] obtain e where
    "validateTtl (add_ttl aps) = Inl (LB e)" "errClass e = ValidationError" by blast
  with False show ?thesis
    by (simp add: addRecord_def addRecord_requestParams_def)
qed

lemma updateRecord_low_ttl:
  assumes "upd_ttl ups < 7200"
  shows "\<exists>e. updateRecord P net c ty ups s = (Inl (LB e), s) \<and> errClass e = ValidationError"
proof (cases "ty = SOA")
  case True
  then show ?thesis
    by (simp add: updateRecord_def updateRecord_requestParams_def validationError_def simpleError_def)
next
  case False
  from validateTtl_low [OF assms] obtain e where
    "validateTtl (upd_ttl ups) = Inl (LB e)" "errClass e = ValidationError" by blast
  with False show ?thesis
    by (simp add: updateRecord_def updateRecord_requestParams_def)
qed

lemma updateSoa_calls:
  assumes "buildUrl P c ''dns/manage/update-soa-record.json'' (defined (updateSoa_requestParams sps)) = Inr u"
  shows "snd (updateSoa P net c sps s) =
           s @ [\<lparr>fc_url = u, fc_method = POST, fc_headers = None, fc_body = None\<rparr>]"
  using assms by (simp add: updateSoa_def post_def request_calls requestInit_no_body)

lemma addRecord_valid_ttl:
  assumes t: "7200 \<le> add_ttl aps" and n: "ty \<noteq> SOA"
  shows "addRecord P net c ty aps s =
     (if (ty = MX \<or> ty = SRV) \<and> add_priority aps = None
      then (Inl (validationError (''Priority is required for '' @ typeName ty @ '' records'')), s)
      else if ty = SRV \<and> add_port aps = None
      then (Inl (validationError ''Port is required for SRV records''), s)
      else if ty = SRV \<and> add_weight aps = None
      then (Inl (validationError ''Weight is required for SRV records''), s)
      else post P net c (''dns/manage/add-'' @ getApiType ty @ ''-record.json'')
             (defined
                ([(''domain-name'', PStr (add_domainName aps)), (''host'', PStr (add_host aps)),
                  (''value'', PStr (add_value aps)), (''ttl'', PNum (add_ttl aps))]
                 @ (if ty = MX \<or> ty = SRV
                    then (case add_priority aps of
                            Some p \<Rightarrow> [(''priority'', PNum p)] | None \<Rightarrow> [])
                    else [])
                 @ (if ty = SRV
                    then (case add_port aps of Some p \<Rightarrow> [(''port'', PNum p)] | None \<Rightarrow> [])
                       @ (case add_weight aps of
                            Some w \<Rightarrow> [(''weight'', PNum w)] | None \<Rightarrow> [])
                    else []))) s)"
proof -
  from t have v: "validateTtl (add_ttl aps) = Inr ()" by (rule validateTtl_ok)
  show ?thesis
    using n
    by (auto simp: addRecord_def addRecord_requestParams_def v Let_def split: option.splits)
qed

lemma updateRecord_valid_ttl:
  assumes t: "7200 \<le> upd_ttl ups" and n: "ty \<noteq> SOA"
  shows "updateRecord P net c ty ups s =
     post P net c (''dns/manage/update-'' @ getApiType ty @ ''-record.json'')
       (defined
          ([(''domain-name'', PStr (upd_domainName ups)), (''host'', PStr (upd_host ups)),
            (''current-value'', PStr (upd_currentValue ups)),
            (''new-value'', PStr (upd_newValue ups)), (''ttl'', PNum (upd_ttl ups))]
           @ (if ty = MX \<or> ty = SRV
              then (case upd_priority ups of
                      Some p \<Rightarrow> [(''priority'', PNum p)] | None \<Rightarrow> [])
              else [])
           @ (if ty = SRV
              then (case upd_port ups of Some p \<Rightarrow> [(''port'', PNum p)] | None \<Rightarrow> [])
                 @ (case upd_weight ups of Some w \<Rightarrow> [(''weight'', PNum w)] | None \<Rightarrow> [])
              else []))) s"
proof -
  from t have v: "validateTtl (upd_ttl ups) = Inr ()" by (rule validateTtl_ok)
  show ?thesis
    using n
    by (auto simp: updateRecord_def updateRecord_requestParams_def v Let_def)
qed

lemma addRecord_ttl_error:
  assumes t: "add_ttl aps < 7200" and n: "ty \<noteq> SOA"
  shows "addRecord P net c ty aps s =
     (Inl (LB \<lparr>errClass = ValidationError,
               message = ''TTL must be at least 7200 seconds, got '' @ Number_toString (add_ttl aps),
               statusCode = None, apiStatus = None, apiMessage = None\<rparr>), s)"
proof -
  have m: "Number_toString MIN_TTL = ''7200''" by code_simp
  from t n show ?thesis
    by (simp add: addRecord_def addRecord_requestParams_def validateTtl_def
          validationError_def simpleError_def m)
       (simp add: MIN_TTL_def)
qed

lemma updateRecord_ttl_error:
  assumes t: "upd_ttl ups < 7200" and n: "ty \<noteq> SOA"
  shows "updateRecord P net c ty ups s =
     (Inl (LB \<lparr>errClass = ValidationError,
               message = ''TTL must be at least 7200 seconds, got '' @ Number_toString (upd_ttl ups),
               statusCode = None, apiStatus = None, apiMessage = None\<rparr>), s)"
proof -
  have m: "Number_toString MIN_TTL = ''7200''" by code_simp
  from t n show ?thesis
    by (simp add: updateRecord_def updateRecord_requestParams_def validateTtl_def
          validationError_def simpleError_def m)
       (simp add: MIN_TTL_def)
qed

text \<open>
  Claim C3, amended. \<^verbatim>\<open>addRecord\<close> and \<^verbatim>\<open>updateRecord\<close> throw a \<^verbatim>\<open>ValidationError\<close>
  and issue no HTTP request whenever the given ttl is less than 7200, for every record
  type; for a type other than \<^verbatim>\<open>SOA\<close> it is the error of the TTL check, and for the
  type \<^verbatim>\<open>SOA\<close> the error that refuses the type, whatever the ttl. With a ttl of at
  least 7200 no TTL-related error is raised: for a type other than \<^verbatim>\<open>SOA\<close>,
  \<^verbatim>\<open>updateRecord\<close> is the \<^verbatim>\<open>post\<close> of its parameters, the ttl among them, and
  \<^verbatim>\<open>addRecord\<close> is the \<^verbatim>\<open>post\<close> of its parameters unless a priority, port or weight
  that the type requires is missing, which is then the error thrown. \<^verbatim>\<open>updateSoa\<close> does
  not check its ttl: whenever the URL can be built it sends its request, whatever the ttl.
\<close>

theorem ttl_validated_by_addRecord_and_updateRecord:
  "addRecord P net c SOA aps s =
     (Inl (validationError
        ''SOA records cannot be added; use updateSoa() to update the existing SOA record''), s) \<and>
   updateRecord P net c SOA ups s =
     (Inl (validationError
        ''SOA records cannot be updated with updateRecord(); use updateSoa() instead''), s) \<and>
   (add_ttl aps < 7200 \<longrightarrow>
      (\<exists>e. addRecord P net c ty aps s = (Inl (LB e), s) \<and> errClass e = ValidationError)) \<and>
   (add_ttl aps < 7200 \<and> ty \<noteq> SOA \<longrightarrow>
      addRecord P net c ty aps s =
        (Inl (LB \<lparr>errClass = ValidationError,
                  message = ''TTL must be at least 7200 seconds, got '' @
                            Number_toString (add_ttl aps),
                  statusCode = None, apiStatus = None, apiMessage = None\<rparr>), s)) \<and>
   (upd_ttl ups < 7200 \<longrightarrow>
      (\<exists>e. updateRecord P net c ty ups s = (Inl (LB e), s) \<and> errClass e = ValidationError)) \<and>
   (upd_ttl ups < 7200 \<and> ty \<noteq> SOA \<longrightarrow>
      updateRecord P net c ty ups s =
        (Inl (LB \<lparr>errClass = ValidationError,
                  message = ''TTL must be at least 7200 seconds, got '' @
                            Number_toString (upd_ttl ups),
                  statusCode = None, apiStatus = None, apiMessage = None\<rparr>), s)) \<and>
   (7200 \<le> add_ttl aps \<and> ty \<noteq> SOA \<longrightarrow>
      addRecord P net c ty aps s =
        (if (ty = MX \<or> ty = SRV) \<and> add_priority aps = None
         then (Inl (validationError (''Priority is required for '' @ typeName ty @ '' records'')), s)
         else if ty = SRV \<and> add_port aps = None
         then (Inl (validationError ''Port is required for SRV records''), s)
         else if ty = SRV \<and> add_weight aps = None
         then (Inl (validationError ''Weight is required for SRV records''), s)
         else post P net c (''dns/manage/add-'' @ getApiType ty @ ''-record.json'')
                (defined
                   ([(''domain-name'', PStr (add_domainName aps)),
                     (''host'', PStr (add_host aps)),
                     (''value'', PStr (add_value aps)), (''ttl'', PNum (add_ttl aps))]
                    @ (if ty = MX \<or> ty = SRV
                       then (case add_priority aps of
                               Some p \<Rightarrow> [(''priority'', PNum p)] | None \<Rightarrow> [])
                       else [])
                    @ (if ty = SRV
                       then (case add_port aps of
                               Some p \<Rightarrow> [(''port'', PNum p)] | None \<Rightarrow> [])
                          @ (case add_weight aps of
                               Some w \<Rightarrow> [(''weight'', PNum w)] | None \<Rightarrow> [])
                       else []))) s)) \<and>
   (7200 \<le> upd_ttl ups \<and> ty \<noteq> SOA \<longrightarrow>
      updateRecord P net c ty ups s =
        post P net c (''dns/manage/update-'' @ getApiType ty @ ''-record.json'')
          (defined
             ([(''domain-name'', PStr (upd_domainName ups)), (''host'', PStr (upd_host ups)),
               (''current-value'', PStr (upd_currentValue ups)),
               (''new-value'', PStr (upd_newValue ups)), (''ttl'', PNum (upd_ttl ups))]
              @ (if ty = MX \<or> ty = SRV
                 then (case upd_priority ups of
                         Some p \<Rightarrow> [(''priority'', PNum p)] | None \<Rightarrow> [])
                 else [])
              @ (if ty = SRV
                 then (case upd_port ups of Some p \<Rightarrow> [(''port'', PNum p)] | None \<Rightarrow> [])
                    @ (case upd_weight ups of
                         Some w \<Rightarrow> [(''weight'', PNum w)] | None \<Rightarrow> [])
                 else []))) s) \<and>
   (7200 \<le> ttl \<longrightarrow> validateTtl ttl = Inr ()) \<and>
   (\<forall>u. buildUrl P c ''dns/manage/update-soa-record.json''
           (defined (updateSoa_requestParams sps)) = Inr u \<longrightarrow>
        snd (updateSoa P net c sps s) =
          s @ [\<lparr>fc_url = u, fc_method = POST, fc_headers = None, fc_body = None\<rparr>])"
proof (intro conjI impI allI)
  show "addRecord P net c SOA aps s =
     (Inl (validationError
        ''SOA records cannot be added; use updateSoa() to update the existing SOA record''), s)"
    by (simp add: addRecord_def addRecord_requestParams_def)
next
  show "updateRecord P net c SOA ups s =
     (Inl (validationError
        ''SOA records cannot be updated with updateRecord(); use updateSoa() instead''), s)"
    by (simp add: updateRecord_def updateRecord_requestParams_def)
next
  assume "add_ttl aps < 7200"
  then show "\<exists>e. addRecord P net c ty aps s = (Inl (LB e), s) \<and> errClass e = ValidationError"
    by (rule addRecord_low_ttl)
next
  assume "add_ttl aps < 7200 \<and> ty \<noteq> SOA"
  then show "addRecord P net c ty aps s =
        (Inl (LB \<lparr>errClass = ValidationError,
                  message = ''TTL must be at least 7200 seconds, got '' @
                            Number_toString (add_ttl aps),
                  statusCode = None, apiStatus = None, apiMessage = None\<rparr>), s)"
    by (simp add: addRecord_ttl_error)
next
  assume "upd_ttl ups < 7200"
  then show "\<exists>e. updateRecord P net c ty ups s = (Inl (LB e), s) \<and> errClass e = ValidationError"
    by (rule updateRecord_low_ttl)
next
  assume "upd_ttl ups < 7200 \<and> ty \<noteq> SOA"
  then show "updateRecord P net c ty ups s =
        (Inl (LB \<lparr>errClass = ValidationError,
                  message = ''TTL must be at least 7200 seconds, got '' @
                            Number_toString (upd_ttl ups),
                  statusCode = None, apiStatus = None, apiMessage = None\<rparr>), s)"
    by (simp add: updateRecord_ttl_error)
next
  assume a: "7200 \<le> add_ttl aps \<and> ty \<noteq> SOA"
  show "addRecord P net c ty aps s =
        (if (ty = MX \<or> ty = SRV) \<and> add_priority aps = None
         then (Inl (validationError (''Priority is required for '' @ typeName ty @ '' records'')), s)
         else if ty = SRV \<and> add_port aps = None
         then (Inl (validationError ''Port is required for SRV records''), s)
         else if ty = SRV \<and> add_weight aps = None
         then (Inl (validationError ''Weight is required for SRV records''), s)
         else post P net c (''dns/manage/add-'' @ getApiType ty @ ''-record.json'')
                (defined
                   ([(''domain-name'', PStr (add_domainName aps)),
                     (''host'', PStr (add_host aps)),
                     (''value'', PStr (add_value aps)), (''ttl'', PNum (add_ttl aps))]
                    @ (if ty = MX \<or> ty = SRV
                       then (case add_priority aps of
                               Some p \<Rightarrow> [(''priority'', PNum p)] | None \<Rightarrow> [])
                       else [])
                    @ (if ty = SRV
                       then (case add_port aps of
                               Some p \<Rightarrow> [(''port'', PNum p)] | None \<Rightarrow> [])
                          @ (case add_weight aps of
                               Some w \<Rightarrow> [(''weight'', PNum w)] | None \<Rightarrow> [])
                       else []))) s)"
    by (rule addRecord_valid_ttl [OF a [THEN conjunct1] a [THEN conjunct2]])
next
  assume a: "7200 \<le> upd_ttl ups \<and> ty \<noteq> SOA"
  show "updateRecord P net c ty ups s =
        post P net c (''dns/manage/update-'' @ getApiType ty @ ''-record.json'')
          (defined
             ([(''domain-name'', PStr (upd_domainName ups)), (''host'', PStr (upd_host ups)),
               (''current-value'', PStr (upd_currentValue ups)),
               (''new-value'', PStr (upd_newValue ups)), (''ttl'', PNum (upd_ttl ups))]
              @ (if ty = MX \<or> ty = SRV
                 then (case upd_priority ups of
                         Some p \<Rightarrow> [(''priority'', PNum p)] | None \<Rightarrow> [])
                 else [])
              @ (if ty = SRV
                 then (case upd_port ups of Some p \<Rightarrow> [(''port'', PNum p)] | None \<Rightarrow> [])
                    @ (case upd_weight ups of
                         Some w \<Rightarrow> [(''weight'', PNum w)] | None \<Rightarrow> [])
                 else []))) s"
    by (rule updateRecord_valid_ttl [OF a [THEN conjunct1] a [THEN conjunct2]])
next
  assume "7200 \<le> ttl"
  then show "validateTtl ttl = Inr ()" by (rule validateTtl_ok)
next
  fix u
  assume "buildUrl P c ''dns/manage/update-soa-record.json''
           (defined (updateSoa_requestParams sps)) = Inr u"
  then show "snd (updateSoa P net c sps s) =
          s @ [\<lparr>fc_url = u, fc_method = POST, fc_headers = None, fc_body = None\<rparr>]"
    by (rule updateSoa_calls)
qed

theorem ttl_validated_by_addRecord_and_updateRecord_witness:
  "addRecord samplePlatform (answering (JObj [(''status'', JStr ''Success'')])) sampleClient A
     \<lparr>add_domainName = ''example.com'', add_host = ''www'', add_value = ''192.0.2.1'',
      add_ttl = 7199, add_priority = None, add_port = None, add_weight = None\<rparr> [] =
     (Inl (LB \<lparr>errClass = ValidationError,
               message = ''TTL must be at least 7200 seconds, got 7199'',
               statusCode = None, apiStatus = None, apiMessage = None\<rparr>), []) \<and>
   addRecord samplePlatform (answering (JObj [(''status'', JStr ''Success'')])) sampleClient A
     \<lparr>add_domainName = ''example.com'', add_host = ''www'', add_value = ''192.0.2.1'',
      add_ttl = 7200, add_priority = None, add_port = None, add_weight = None\<rparr> [] =
     (Inr (JObj [(''status'', JStr ''Success'')]),
      [\<lparr>fc_url = ''https://httpapi.com/api/dns/manage/add-ipv4-record.json?auth-userid=123456&api-key=abc123&domain-name=example.com&host=www&value=192.0.2.1&ttl=7200'',
        fc_method = POST, fc_headers = None, fc_body = None\<rparr>]) \<and>
   (\<exists>e. updateRecord samplePlatform (answering (JObj [(''status'', JStr ''Success'')])) sampleClient MX
          \<lparr>upd_domainName = ''example.com'', upd_host = ''mail'',
           upd_currentValue = ''mx1.example.com'', upd_newValue = ''mx2.example.com'',
           upd_ttl = 7199, upd_priority = Some 10, upd_port = None, upd_weight = None\<rparr> [] =
          (Inl (LB e), []) \<and> errClass e = ValidationError) \<and>
   updateRecord samplePlatform (answering (JObj [(''status'', JStr ''Success'')])) sampleClient MX
     \<lparr>upd_domainName = ''example.com'', upd_host = ''mail'',
      upd_currentValue = ''mx1.example.com'', upd_newValue = ''mx2.example.com'',
      upd_ttl = 7200, upd_priority = Some 10, upd_port = None, upd_weight = None\<rparr> [] =
     (Inr (JObj [(''status'', JStr ''Success'')]),
      [\<lparr>fc_url = ''https://httpapi.com/api/dns/manage/update-mx-record.json?auth-userid=123456&api-key=abc123&domain-name=example.com&host=mail&current-value=mx1.example.com&new-value=mx2.example.com&ttl=7200&priority=10'',
        fc_method = POST, fc_headers = None, fc_body = None\<rparr>]) \<and>
   validateTtl 7200 = Inr () \<and>
   snd (updateSoa samplePlatform (answering (JObj [(''status'', JStr ''Success'')])) sampleClient
          \<lparr>soa_domainName = ''example.com'', soa_responsiblePerson = ''admin.example.com'',
           soa_refresh = 7200, soa_retry = 7200, soa_expire = 172800, soa_ttl = 14400\<rparr> []) =
     [\<lparr>fc_url = ''https://httpapi.com/api/dns/manage/update-soa-record.json?auth-userid=123456&api-key=abc123&domain-name=example.com&responsible-person=admin.example.com&refresh=7200&retry=7200&expire=172800&ttl=14400'',
       fc_method = POST, fc_headers = None, fc_body = None\<rparr>]"
proof -
  let ?net = "answering (JObj [(''status'', JStr ''Success'')])"
  let ?low = "\<lparr>add_domainName = ''example.com'', add_host = ''www'', add_value = ''192.0.2.1'',
      add_ttl = 7199, add_priority = None, add_port = None, add_weight = None\<rparr>"
  let ?min = "\<lparr>add_domainName = ''example.com'', add_host = ''www'', add_value = ''192.0.2.1'',
      add_ttl = 7200, add_priority = None, add_port = None, add_weight = None\<rparr>"
  let ?ulow = "\<lparr>upd_domainName = ''example.com'', upd_host = ''mail'',
           upd_currentValue = ''mx1.example.com'', upd_newValue = ''mx2.example.com'',
           upd_ttl = 7199, upd_priority = Some 10, upd_port = None, upd_weight = None\<rparr>"
  let ?umin = "\<lparr>upd_domainName = ''example.com'', upd_host = ''mail'',
      upd_currentValue = ''mx1.example.com'', upd_newValue = ''mx2.example.com'',
      upd_ttl = 7200, upd_priority = Some 10, upd_port = None, upd_weight = None\<rparr>"
  let ?sps = "\<lparr>soa_domainName = ''example.com'', soa_responsiblePerson = ''admin.example.com'',
           soa_refresh = 7200, soa_retry = 7200, soa_expire = 172800, soa_ttl = 14400\<rparr>"
  let ?soaurl = "''https://httpapi.com/api/dns/manage/update-soa-record.json?auth-userid=123456&api-key=abc123&domain-name=example.com&responsible-person=admin.example.com&refresh=7200&retry=7200&expire=172800&ttl=14400''"
  note L = ttl_validated_by_addRecord_and_updateRecord
    [where aps = ?low and ups = ?ulow and ttl = 7200 and sps = ?sps and P = samplePlatform
       and c = sampleClient and s = "[]" and net = ?net]
  note H = ttl_validated_by_addRecord_and_updateRecord
    [where aps = ?min and ups = ?umin and ttl = 7200 and sps = ?sps and P = samplePlatform
       and c = sampleClient and s = "[]" and net = ?net]
  have d: "Number_toString 7199 = ''7199''" by code_simp
  have "addRecord samplePlatform ?net sampleClient A ?low [] =
     (Inl (LB \<lparr>errClass = ValidationError,
               message = ''TTL must be at least 7200 seconds, got '' @ Number_toString (add_ttl ?low),
               statusCode = None, apiStatus = None, apiMessage = None\<rparr>), [])"
    by (rule L [where ty = A, THEN conjunct2, THEN conjunct2, THEN conjunct2, THEN conjunct1, rule_format]) simp
  then have 1: "addRecord samplePlatform ?net sampleClient A ?low [] =
     (Inl (LB \<lparr>errClass = ValidationError,
               message = ''TTL must be at least 7200 seconds, got 7199'',
               statusCode = None, apiStatus = None, apiMessage = None\<rparr>), [])"
    by (simp add: d)
  note E2 = H [where ty = A, THEN conjunct2, THEN conjunct2, THEN conjunct2, THEN conjunct2, THEN conjunct2, THEN conjunct2,
               THEN conjunct1, THEN mp]
  have a2: "7200 \<le> add_ttl ?min \<and> A \<noteq> SOA" by simp
  have 2: "addRecord samplePlatform ?net sampleClient A ?min [] =
     (Inr (JObj [(''status'', JStr ''Success'')]),
      [\<lparr>fc_url = ''https://httpapi.com/api/dns/manage/add-ipv4-record.json?auth-userid=123456&api-key=abc123&domain-name=example.com&host=www&value=192.0.2.1&ttl=7200'',
        fc_method = POST, fc_headers = None, fc_body = None\<rparr>])"
    by (subst E2 [OF a2]) code_simp
  have 3: "\<exists>e. updateRecord samplePlatform ?net sampleClient MX ?ulow [] =
          (Inl (LB e), []) \<and> errClass e = ValidationError"
    by (rule L [where ty = MX, THEN conjunct2, THEN conjunct2, THEN conjunct2, THEN conjunct2, THEN conjunct1, rule_format]) simp
  note E4 = H [where ty = MX, THEN conjunct2, THEN conjunct2, THEN conjunct2, THEN conjunct2, THEN conjunct2, THEN conjunct2,
               THEN conjunct2, THEN conjunct1, THEN mp]
  have a4: "7200 \<le> upd_ttl ?umin \<and> MX \<noteq> SOA" by simp
  have 4: "updateRecord samplePlatform ?net sampleClient MX ?umin [] =
     (Inr (JObj [(''status'', JStr ''Success'')]),
      [\<lparr>fc_url = ''https://httpapi.com/api/dns/manage/update-mx-record.json?auth-userid=123456&api-key=abc123&domain-name=example.com&host=mail&current-value=mx1.example.com&new-value=mx2.example.com&ttl=7200&priority=10'',
        fc_method = POST, fc_headers = None, fc_body = None\<rparr>])"
    by (subst E4 [OF a4]) code_simp
  have 5: "validateTtl 7200 = Inr ()"
    by (rule H [where ty = A, THEN conjunct2, THEN conjunct2, THEN conjunct2, THEN conjunct2, THEN conjunct2, THEN conjunct2,
                THEN conjunct2, THEN conjunct2, THEN conjunct1, rule_format]) simp
  have u: "buildUrl samplePlatform sampleClient ''dns/manage/update-soa-record.json''
             (defined (updateSoa_requestParams ?sps)) = Inr ?soaurl"
    by code_simp
  have "snd (updateSoa samplePlatform ?net sampleClient ?sps []) =
             [] @ [\<lparr>fc_url = ?soaurl, fc_method = POST, fc_headers = None, fc_body = None\<rparr>]"
    by (rule H [where ty = A, THEN conjunct2, THEN conjunct2, THEN conjunct2, THEN conjunct2, THEN conjunct2, THEN conjunct2,
                THEN conjunct2, THEN conjunct2, THEN conjunct2, rule_format])
       (rule u)
  then have 6: "snd (updateSoa samplePlatform ?net sampleClient ?sps []) =
             [\<lparr>fc_url = ?soaurl, fc_method = POST, fc_headers = None, fc_body = None\<rparr>]"
    by (simp only: append_Nil)
  from 1 2 3 4 5 6 show ?thesis by (intro conjI)
qed

text \<open>
  The claim as stated fails for \<^verbatim>\<open>updateSoa\<close>: with a ttl of 60 seconds it throws
  nothing and sends the request.
\<close>

theorem updateSoa_low_ttl_counterexample:
  "updateSoa samplePlatform (answering (JObj [(''status'', JStr ''Success'')])) sampleClient
     \<lparr>soa_domainName = ''example.com'', soa_responsiblePerson = ''admin.example.com'',
      soa_refresh = 7200, soa_retry = 7200, soa_expire = 172800, soa_ttl = 60\<rparr> [] =
     (Inr (JObj [(''status'', JStr ''Success'')]),
      [\<lparr>fc_url = ''https://httpapi.com/api/dns/manage/update-soa-record.json?auth-userid=123456&api-key=abc123&domain-name=example.com&responsible-person=admin.example.com&refresh=7200&retry=7200&expire=172800&ttl=60'',
        fc_method = POST, fc_headers = None, fc_body = None\<rparr>])"
  by code_simp

section \<open>Properties of the URL that the client builds\<close>

lemma map_of_filter_other:
  "k' \<noteq> k \<Longrightarrow> map_of (filter (\<lambda>p. fst p \<noteq> k) ps) k' = map_of ps k'"
  by (induction ps) auto

lemma searchParams_set_same: "map_of (searchParams_set ps k v) k = Some v"
  by (induction ps k v rule: searchParams_set.induct) auto

lemma searchParams_set_other:
  "k' \<noteq> k \<Longrightarrow> map_of (searchParams_set ps k v) k' = map_of ps k'"
  by (induction ps k v rule: searchParams_set.induct) (auto simp: map_of_filter_other)

lemma searchParams_set_keys:
  "fst ` set (searchParams_set ps k v) = insert k (fst ` set ps)"
  by (induction ps k v rule: searchParams_set.induct) (auto simp: image_iff)

lemma setEntries_untouched:
  "\<forall>v. (k, Some v) \<notin> set es \<Longrightarrow> map_of (setEntries sp es) k = map_of sp k"
proof (induction sp es rule: setEntries.induct)
  case (1 sp)
  then show ?case by simp
next
  case (2 sp key v es)
  then show ?case
    by (cases v) (auto simp: searchParams_set_other)
qed

lemma setEntries_defined:
  "distinct (map fst es) \<Longrightarrow> (k, Some v) \<in> set es \<Longrightarrow>
   map_of (setEntries sp es) k = Some (String_param v)"
proof (induction sp es rule: setEntries.induct)
  case (1 sp)
  then show ?case by simp
next
  case (2 sp key w es)
  show ?case
  proof (cases "(k, Some v) \<in> set es")
    case True
    with 2 show ?thesis by simp
  next
    case False
    with 2 have kw: "key = k" "w = Some v" by auto
    from 2 kw have "\<forall>v'. (k, Some v') \<notin> set es"
      by (auto simp: image_iff)
    then have "map_of (setEntries (searchParams_set sp k (String_param v)) es) k =
               map_of (searchParams_set sp k (String_param v)) k"
      by (rule setEntries_untouched)
    with kw show ?thesis by (simp add: searchParams_set_same)
  qed
qed

lemma setEntries_keys:
  "fst ` set (setEntries sp es) = fst ` set sp \<union> {k. \<exists>v. (k, Some v) \<in> set es}"
proof (induction sp es rule: setEntries.induct)
  case (1 sp)
  then show ?case by simp
next
  case (2 sp key v es)
  then show ?case
    by (cases v) (auto simp: searchParams_set_keys)
qed

lemma buildUrl_url_omitted: "buildUrl_url P c path None = buildUrl_url P c path (Some [])"
  by (simp add: buildUrl_url_def Let_def split: option.splits)

text \<open>
  Claim C6, amended. Let the \<^verbatim>\<open>URL\<close> constructor accept the path and the base, giving
  \<open>u0\<close>, and let \<open>u\<close> be the URL that \<^verbatim>\<open>buildUrl\<close> serialises, for a parameter
  object \<open>es\<close> (its names are distinct). Then \<open>u\<close> is the URL of the one call of
  \<^verbatim>\<open>get\<close> and of \<^verbatim>\<open>post\<close> alike, and its query has parameters named
  \<^verbatim>\<open>auth-userid\<close> and \<^verbatim>\<open>api-key\<close>. Each of the two holds the client's credential
  unless the caller supplies a defined parameter of that name, whose value then stands
  in its place. Every parameter of the caller whose value is not \<^verbatim>\<open>undefined\<close> is in
  the query with its value as a string. A parameter whose value is \<^verbatim>\<open>undefined\<close> adds
  nothing: it is absent from the query unless it bears the name of a credential or the
  path brought a parameter of that name along.
\<close>

theorem buildUrl_query_parameters:
  assumes u0: "new_URL P path (client_baseUrl c) = Some u0"
    and u: "buildUrl_url P c path (Some es) = Inr u"
    and d: "distinct (map fst es)"
  shows "buildUrl P c path (Some es) = Inr (URL_toString P u) \<and>
     snd (get P net c path (Some es) s) =
       s @ [\<lparr>fc_url = URL_toString P u, fc_method = GET, fc_headers = None, fc_body = None\<rparr>] \<and>
     snd (post P net c path (Some es) s) =
       s @ [\<lparr>fc_url = URL_toString P u, fc_method = POST, fc_headers = None, fc_body = None\<rparr>] \<and>
     searchParams_has (searchParams u) ''auth-userid'' \<and>
     searchParams_has (searchParams u) ''api-key'' \<and>
     ((\<forall>v. (''auth-userid'', Some v) \<notin> set es) \<longrightarrow>
        searchParams_get (searchParams u) ''auth-userid'' = Some (client_authUserId c)) \<and>
     ((\<forall>v. (''api-key'', Some v) \<notin> set es) \<longrightarrow>
        searchParams_get (searchParams u) ''api-key'' = Some (client_apiKey c)) \<and>
     (\<forall>k v. (k, Some v) \<in> set es \<longrightarrow>
        searchParams_get (searchParams u) k = Some (String_param v)) \<and>
     (\<forall>k. (k, None) \<in> set es \<and> k \<noteq> ''auth-userid'' \<and> k \<noteq> ''api-key'' \<and>
          \<not> searchParams_has (searchParams u0) k \<longrightarrow>
        \<not> searchParams_has (searchParams u) k)"
proof -
  let ?sp1 = "searchParams_set (searchParams u0) ''auth-userid'' (client_authUserId c)"
  let ?sp2 = "searchParams_set ?sp1 ''api-key'' (client_apiKey c)"
  from u0 u have sp: "searchParams u = setEntries ?sp2 es"
    by (auto simp: buildUrl_url_def Let_def)
  have keys: "fst ` set (searchParams u) =
      insert ''api-key'' (insert ''auth-userid'' (fst ` set (searchParams u0))) \<union>
      {k. \<exists>v. (k, Some v) \<in> set es}"
    by (simp add: sp setEntries_keys searchParams_set_keys)
  have 1: "buildUrl P c path (Some es) = Inr (URL_toString P u)"
    using u by (simp add: buildUrl_def)
  have 2: "snd (get P net c path (Some es) s) =
       s @ [\<lparr>fc_url = URL_toString P u, fc_method = GET, fc_headers = None, fc_body = None\<rparr>]"
    by (simp add: get_def 1 request_def Let_def requestInit_def split: sum.splits)
  have 3: "snd (post P net c path (Some es) s) =
       s @ [\<lparr>fc_url = URL_toString P u, fc_method = POST, fc_headers = None, fc_body = None\<rparr>]"
    by (simp add: post_def 1 request_def Let_def requestInit_def split: sum.splits)
  have 4: "searchParams_has (searchParams u) ''auth-userid''"
    and 5: "searchParams_has (searchParams u) ''api-key''"
    unfolding searchParams_has_def set_map keys by simp_all
  have 6: "(\<forall>v. (''auth-userid'', Some v) \<notin> set es) \<longrightarrow>
        searchParams_get (searchParams u) ''auth-userid'' = Some (client_authUserId c)"
    by (simp add: searchParams_get_def sp setEntries_untouched searchParams_set_other
          searchParams_set_same)
  have 7: "(\<forall>v. (''api-key'', Some v) \<notin> set es) \<longrightarrow>
        searchParams_get (searchParams u) ''api-key'' = Some (client_apiKey c)"
    by (simp add: searchParams_get_def sp setEntries_untouched searchParams_set_same)
  have 8: "\<forall>k v. (k, Some v) \<in> set es \<longrightarrow>
        searchParams_get (searchParams u) k = Some (String_param v)"
    using d by (simp add: searchParams_get_def sp setEntries_defined)
  have 9: "\<forall>k. (k, None) \<in> set es \<and> k \<noteq> ''auth-userid'' \<and> k \<noteq> ''api-key'' \<and>
          \<not> searchParams_has (searchParams u0) k \<longrightarrow>
        \<not> searchParams_has (searchParams u) k"
  proof (intro allI impI)
    fix k
    assume a: "(k, None) \<in> set es \<and> k \<noteq> ''auth-userid'' \<and> k \<noteq> ''api-key'' \<and>
          \<not> searchParams_has (searchParams u0) k"
    have "\<forall>v. (k, Some v) \<notin> set es"
    proof (intro allI notI)
      fix v assume "(k, Some v) \<in> set es"
      with a d have "Some v = None" by (meson eq_key_imp_eq_value)
      then show False by simp
    qed
    with a show "\<not> searchParams_has (searchParams u) k"
      unfolding searchParams_has_def set_map keys by auto
  qed
  from 1 2 3 4 5 6 7 8 9 show ?thesis by (intro conjI)
qed

theorem buildUrl_query_parameters_witness:
  "buildUrl samplePlatform sampleClient ''domains/search.json''
     (Some [(''no-of-records'', Some (PNum 25)), (''status'', None)]) =
     Inr ''https://httpapi.com/api/domains/search.json?auth-userid=123456&api-key=abc123&no-of-records=25'' \<and>
   searchParams_get
     [(''auth-userid'', ''123456''), (''api-key'', ''abc123''), (''no-of-records'', ''25'')]
     ''auth-userid'' = Some (client_authUserId sampleClient) \<and>
   searchParams_get
     [(''auth-userid'', ''123456''), (''api-key'', ''abc123''), (''no-of-records'', ''25'')]
     ''api-key'' = Some (client_apiKey sampleClient) \<and>
   searchParams_get
     [(''auth-userid'', ''123456''), (''api-key'', ''abc123''), (''no-of-records'', ''25'')]
     ''no-of-records'' = Some (String_param (PNum 25)) \<and>
   \<not> searchParams_has
     [(''auth-userid'', ''123456''), (''api-key'', ''abc123''), (''no-of-records'', ''25'')]
     ''status''"
proof -
  let ?es = "[(''no-of-records'', Some (PNum 25)), (''status'', None)]"
  let ?start = "\<lparr>location = ''https://httpapi.com/api/domains/search.json'', searchParams = []\<rparr>"
  let ?u = "\<lparr>location = ''https://httpapi.com/api/domains/search.json'',
             searchParams = [(''auth-userid'', ''123456''), (''api-key'', ''abc123''),
                             (''no-of-records'', ''25'')]\<rparr>"
  have h1: "new_URL samplePlatform ''domains/search.json'' (client_baseUrl sampleClient) = Some ?start"
    by code_simp
  have h2: "buildUrl_url samplePlatform sampleClient ''domains/search.json'' (Some ?es) = Inr ?u"
    by code_simp
  have h3: "distinct (map fst ?es)" by simp
  have s: "URL_toString samplePlatform ?u =
     ''https://httpapi.com/api/domains/search.json?auth-userid=123456&api-key=abc123&no-of-records=25''"
    by code_simp
  note T = buildUrl_query_parameters [OF h1 h2 h3, of "answering JNull" "[]"]
  have 1: "buildUrl samplePlatform sampleClient ''domains/search.json'' (Some ?es) =
     Inr ''https://httpapi.com/api/domains/search.json?auth-userid=123456&api-key=abc123&no-of-records=25''"
    using T [THEN conjunct1] by (simp only: s)
  note R = T [THEN conjunct2, THEN conjunct2, THEN conjunct2, THEN conjunct2, THEN conjunct2]
  have 2: "searchParams_get (searchParams ?u) ''auth-userid'' = Some (client_authUserId sampleClient)"
    by (rule R [THEN conjunct1, rule_format]) simp
  have 3: "searchParams_get (searchParams ?u) ''api-key'' = Some (client_apiKey sampleClient)"
    by (rule R [THEN conjunct2, THEN conjunct1, rule_format]) simp
  have 4: "searchParams_get (searchParams ?u) ''no-of-records'' = Some (String_param (PNum 25))"
    by (rule R [THEN conjunct2, THEN conjunct2, THEN conjunct1, rule_format]) simp
  have 5: "\<not> searchParams_has (searchParams ?u) ''status''"
    by (rule R [THEN conjunct2, THEN conjunct2, THEN conjunct2, rule_format])
       (simp add: searchParams_has_def)
  from 1 2 3 4 5 show ?thesis by simp
qed

text \<open>
  The claim as stated fails when a parameter is named like a credential: a defined
  \<^verbatim>\<open>api-key\<close> of the caller replaces the client's key in the URL, and an
  \<^verbatim>\<open>auth-userid\<close> that is \<^verbatim>\<open>undefined\<close> is in the URL all the same.
\<close>

theorem buildUrl_credential_replaced_counterexample:
  "buildUrl samplePlatform sampleClient ''domains/search.json''
     (Some [(''api-key'', Some (PStr ''other'')), (''auth-userid'', None)]) =
   Inr ''https://httpapi.com/api/domains/search.json?auth-userid=123456&api-key=other''"
  by code_simp

section \<open>Properties of \<^verbatim>\<open>post\<close>\<close>

lemma post_at_most_one_call:
  "\<exists>calls. snd (post P net c path ps s) = s @ calls \<and> length calls \<le> 1 \<and>
     (\<forall>call \<in> set calls.
        fc_method call = POST \<and> fc_headers call = None \<and> fc_body call = None)"
proof (cases "buildUrl P c path ps")
  case (Inl e)
  then have "snd (post P net c path ps s) = s @ []" by (simp add: post_def)
  then show ?thesis by (intro exI [of _ "[]"]) simp
next
  case (Inr u)
  then have "snd (post P net c path ps s) =
      s @ [\<lparr>fc_url = u, fc_method = POST, fc_headers = None, fc_body = None\<rparr>]"
    by (simp add: post_def request_calls requestInit_no_body)
  then show ?thesis
    by (intro exI [of _ "[\<lparr>fc_url = u, fc_method = POST, fc_headers = None, fc_body = None\<rparr>]"])
       simp
qed

lemma get_at_most_one_call:
  "\<exists>calls. snd (get P net c path ps s) = s @ calls \<and> length calls \<le> 1 \<and>
     (\<forall>call \<in> set calls.
        fc_method call = GET \<and> fc_headers call = None \<and> fc_body call = None)"
proof (cases "buildUrl P c path ps")
  case (Inl e)
  then have "snd (get P net c path ps s) = s @ []" by (simp add: get_def)
  then show ?thesis by (intro exI [of _ "[]"]) simp
next
  case (Inr u)
  then have "snd (get P net c path ps s) =
      s @ [\<lparr>fc_url = u, fc_method = GET, fc_headers = None, fc_body = None\<rparr>]"
    by (simp add: get_def request_calls requestInit_no_body)
  then show ?thesis
    by (intro exI [of _ "[\<lparr>fc_url = u, fc_method = GET, fc_headers = None, fc_body = None\<rparr>]"])
       simp
qed

lemma buildUrl_url_accepted:
  "new_URL P path (client_baseUrl c) = Some u0 \<Longrightarrow>
   buildUrl_url P c path (Some es) =
     Inr (u0\<lparr>searchParams :=
           setEntries
             (searchParams_set
                (searchParams_set (searchParams u0) ''auth-userid'' (client_authUserId c))
                ''api-key'' (client_apiKey c)) es\<rparr>)"
  by (simp add: buildUrl_url_def Let_def)

lemma buildUrl_url_rejected:
  "new_URL P path (client_baseUrl c) = None \<Longrightarrow>
   buildUrl_url P c path ps = Inl (TypeError ''Invalid URL'')"
  by (simp add: buildUrl_url_def)

lemma post_query:
  assumes u0: "new_URL P path (client_baseUrl c) = Some u0"
    and u: "buildUrl_url P c path (Some es) = Inr u"
    and d: "distinct (map fst es)"
  shows "post P net c path (Some es) s = request P net c (URL_toString P u) POST None s"
    and "snd (post P net c path (Some es) s) =
       s @ [\<lparr>fc_url = URL_toString P u, fc_method = POST, fc_headers = None, fc_body = None\<rparr>]"
    and "location u = location u0"
    and "(\<forall>v. (''auth-userid'', Some v) \<notin> set es) \<longrightarrow>
        searchParams_get (searchParams u) ''auth-userid'' = Some (client_authUserId c)"
    and "(\<forall>v. (''api-key'', Some v) \<notin> set es) \<longrightarrow>
        searchParams_get (searchParams u) ''api-key'' = Some (client_apiKey c)"
    and "\<forall>k v. (k, Some v) \<in> set es \<longrightarrow>
        searchParams_get (searchParams u) k = Some (String_param v)"
    and "searchParams_has (searchParams u) ''auth-userid''"
    and "searchParams_has (searchParams u) ''api-key''"
proof -
  let ?sp2 = "searchParams_set
                (searchParams_set (searchParams u0) ''auth-userid'' (client_authUserId c))
                ''api-key'' (client_apiKey c)"
  from buildUrl_url_accepted [OF u0, of es] u
  have ueq: "u = u0\<lparr>searchParams := setEntries ?sp2 es\<rparr>" by simp
  then have sp: "searchParams u = setEntries ?sp2 es" by simp
  have b: "buildUrl P c path (Some es) = Inr (URL_toString P u)"
    using u by (simp add: buildUrl_def)
  show "post P net c path (Some es) s = request P net c (URL_toString P u) POST None s"
    by (simp add: post_def b)
  then show "snd (post P net c path (Some es) s) =
       s @ [\<lparr>fc_url = URL_toString P u, fc_method = POST, fc_headers = None, fc_body = None\<rparr>]"
    by (simp add: request_calls requestInit_no_body)
  show "location u = location u0" by (simp add: ueq)
  show "(\<forall>v. (''auth-userid'', Some v) \<notin> set es) \<longrightarrow>
        searchParams_get (searchParams u) ''auth-userid'' = Some (client_authUserId c)"
    by (simp add: searchParams_get_def sp setEntries_untouched searchParams_set_other
          searchParams_set_same)
  show "(\<forall>v. (''api-key'', Some v) \<notin> set es) \<longrightarrow>
        searchParams_get (searchParams u) ''api-key'' = Some (client_apiKey c)"
    by (simp add: searchParams_get_def sp setEntries_untouched searchParams_set_same)
  show "\<forall>k v. (k, Some v) \<in> set es \<longrightarrow>
        searchParams_get (searchParams u) k = Some (String_param v)"
    using d by (simp add: searchParams_get_def sp setEntries_defined)
  have keys: "fst ` set (searchParams u) =
      insert ''api-key'' (insert ''auth-userid'' (fst ` set (searchParams u0))) \<union>
      {k. \<exists>v. (k, Some v) \<in> set es}"
    by (simp add: sp setEntries_keys searchParams_set_keys)
  show "searchParams_has (searchParams u) ''auth-userid''"
    and "searchParams_has (searchParams u) ''api-key''"
    unfolding searchParams_has_def set_map keys by simp_all
qed

text \<open>
  Claim C9, amended. Let the \<^verbatim>\<open>URL\<close> constructor accept the path and the base URL,
  giving \<open>u0\<close>, and let \<open>u\<close> be the URL that \<^verbatim>\<open>buildUrl\<close> serialises for the
  parameter object \<open>es\<close> (its names are distinct; such a \<open>u\<close> exists, and an omitted
  parameter object counts as an empty one). Then \<^verbatim>\<open>post\<close> is one \<^verbatim>\<open>request\<close> with
  the method \<^verbatim>\<open>POST\<close>, no headers and no body, and the URL of that request is \<open>u\<close>:
  the location of \<open>u0\<close> with a query that has parameters named \<^verbatim>\<open>auth-userid\<close> and
  \<^verbatim>\<open>api-key\<close>, each holding the client's credential unless the caller supplies a
  defined parameter of that name, and every parameter of the caller whose value is not
  \<^verbatim>\<open>undefined\<close>, as a string. When the constructor rejects the path and the base,
  \<^verbatim>\<open>post\<close> and \<^verbatim>\<open>get\<close> throw its \<^verbatim>\<open>TypeError\<close> and send nothing. For every
  path and parameter object, \<^verbatim>\<open>post\<close> and \<^verbatim>\<open>get\<close> make one call at most, and it has
  neither body nor headers: the branch of \<^verbatim>\<open>request\<close> that fills a form-encoded body
  is not reached.
\<close>

theorem post_carries_parameters_in_query:
  "(\<forall>u0 u. new_URL P path (client_baseUrl c) = Some u0 \<and>
            buildUrl_url P c path (Some es) = Inr u \<and> distinct (map fst es) \<longrightarrow>
      post P net c path (Some es) s = request P net c (URL_toString P u) POST None s \<and>
      snd (post P net c path (Some es) s) =
        s @ [\<lparr>fc_url = URL_toString P u, fc_method = POST, fc_headers = None,
              fc_body = None\<rparr>] \<and>
      location u = location u0 \<and>
      searchParams_has (searchParams u) ''auth-userid'' \<and>
      searchParams_has (searchParams u) ''api-key'' \<and>
      ((\<forall>v. (''auth-userid'', Some v) \<notin> set es) \<longrightarrow>
         searchParams_get (searchParams u) ''auth-userid'' = Some (client_authUserId c)) \<and>
      ((\<forall>v. (''api-key'', Some v) \<notin> set es) \<longrightarrow>
         searchParams_get (searchParams u) ''api-key'' = Some (client_apiKey c)) \<and>
      (\<forall>k v. (k, Some v) \<in> set es \<longrightarrow>
         searchParams_get (searchParams u) k = Some (String_param v))) \<and>
   (\<forall>u0. new_URL P path (client_baseUrl c) = Some u0 \<longrightarrow>
      (\<exists>u. buildUrl_url P c path (Some es) = Inr u)) \<and>
   post P net c path None s = post P net c path (Some []) s \<and>
   (new_URL P path (client_baseUrl c) = None \<longrightarrow>
      post P net c path ps s = (Inl (TypeError ''Invalid URL''), s) \<and>
      get P net c path ps s = (Inl (TypeError ''Invalid URL''), s)) \<and>
   (\<exists>calls. snd (post P net c path ps s) = s @ calls \<and> length calls \<le> 1 \<and>
      (\<forall>call \<in> set calls.
         fc_method call = POST \<and> fc_headers call = None \<and> fc_body call = None)) \<and>
   (\<exists>calls. snd (get P net c path ps s) = s @ calls \<and> length calls \<le> 1 \<and>
      (\<forall>call \<in> set calls.
         fc_method call = GET \<and> fc_headers call = None \<and> fc_body call = None))"
proof (intro conjI)
  show "\<forall>u0 u. new_URL P path (client_baseUrl c) = Some u0 \<and>
            buildUrl_url P c path (Some es) = Inr u \<and> distinct (map fst es) \<longrightarrow>
      post P net c path (Some es) s = request P net c (URL_toString P u) POST None s \<and>
      snd (post P net c path (Some es) s) =
        s @ [\<lparr>fc_url = URL_toString P u, fc_method = POST, fc_headers = None,
              fc_body = None\<rparr>] \<and>
      location u = location u0 \<and>
      searchParams_has (searchParams u) ''auth-userid'' \<and>
      searchParams_has (searchParams u) ''api-key'' \<and>
      ((\<forall>v. (''auth-userid'', Some v) \<notin> set es) \<longrightarrow>
         searchParams_get (searchParams u) ''auth-userid'' = Some (client_authUserId c)) \<and>
      ((\<forall>v. (''api-key'', Some v) \<notin> set es) \<longrightarrow>
         searchParams_get (searchParams u) ''api-key'' = Some (client_apiKey c)) \<and>
      (\<forall>k v. (k, Some v) \<in> set es \<longrightarrow>
         searchParams_get (searchParams u) k = Some (String_param v))"
  proof (intro allI impI)
    fix u0 u
    assume a: "new_URL P path (client_baseUrl c) = Some u0 \<and>
            buildUrl_url P c path (Some es) = Inr u \<and> distinct (map fst es)"
    then have h: "new_URL P path (client_baseUrl c) = Some u0"
      "buildUrl_url P c path (Some es) = Inr u" "distinct (map fst es)" by simp_all
    note q = post_query [OF h]
    from q(1) [of net s] q(2) [of net s] q(3) q(7) q(8) q(4) q(5) q(6)
    show "post P net c path (Some es) s = request P net c (URL_toString P u) POST None s \<and>
      snd (post P net c path (Some es) s) =
        s @ [\<lparr>fc_url = URL_toString P u, fc_method = POST, fc_headers = None,
              fc_body = None\<rparr>] \<and>
      location u = location u0 \<and>
      searchParams_has (searchParams u) ''auth-userid'' \<and>
      searchParams_has (searchParams u) ''api-key'' \<and>
      ((\<forall>v. (''auth-userid'', Some v) \<notin> set es) \<longrightarrow>
         searchParams_get (searchParams u) ''auth-userid'' = Some (client_authUserId c)) \<and>
      ((\<forall>v. (''api-key'', Some v) \<notin> set es) \<longrightarrow>
         searchParams_get (searchParams u) ''api-key'' = Some (client_apiKey c)) \<and>
      (\<forall>k v. (k, Some v) \<in> set es \<longrightarrow>
         searchParams_get (searchParams u) k = Some (String_param v))"
      by (intro conjI)
  qed
next
  show "\<forall>u0. new_URL P path (client_baseUrl c) = Some u0 \<longrightarrow>
      (\<exists>u. buildUrl_url P c path (Some es) = Inr u)"
    using buildUrl_url_accepted [of P path c _ es] by blast
next
  show "post P net c path None s = post P net c path (Some []) s"
    by (simp add: post_def buildUrl_def buildUrl_url_omitted)
next
  show "new_URL P path (client_baseUrl c) = None \<longrightarrow>
      post P net c path ps s = (Inl (TypeError ''Invalid URL''), s) \<and>
      get P net c path ps s = (Inl (TypeError ''Invalid URL''), s)"
    by (simp add: post_def get_def buildUrl_def buildUrl_url_rejected)
next
  show "\<exists>calls. snd (post P net c path ps s) = s @ calls \<and> length calls \<le> 1 \<and>
      (\<forall>call \<in> set calls.
         fc_method call = POST \<and> fc_headers call = None \<and> fc_body call = None)"
    by (rule post_at_most_one_call)
next
  show "\<exists>calls. snd (get P net c path ps s) = s @ calls \<and> length calls \<le> 1 \<and>
      (\<forall>call \<in> set calls.
         fc_method call = GET \<and> fc_headers call = None \<and> fc_body call = None)"
    by (rule get_at_most_one_call)
qed

theorem post_carries_parameters_in_query_witness:
  "snd (post samplePlatform (answering (JObj [(''status'', JStr ''Success'')])) sampleClient
          ''dns/activate.json'' (Some [(''order-id'', Some (PStr ''42''))]) []) =
     [\<lparr>fc_url = ''https://httpapi.com/api/dns/activate.json?auth-userid=123456&api-key=abc123&order-id=42'',
       fc_method = POST, fc_headers = None, fc_body = None\<rparr>] \<and>
   searchParams_get [(''auth-userid'', ''123456''), (''api-key'', ''abc123''), (''order-id'', ''42'')]
     ''auth-userid'' = Some (client_authUserId sampleClient) \<and>
   searchParams_get [(''auth-userid'', ''123456''), (''api-key'', ''abc123''), (''order-id'', ''42'')]
     ''api-key'' = Some (client_apiKey sampleClient) \<and>
   searchParams_get [(''auth-userid'', ''123456''), (''api-key'', ''abc123''), (''order-id'', ''42'')]
     ''order-id'' = Some (String_param (PStr ''42'')) \<and>
   post samplePlatform (answering (JObj [(''status'', JStr ''Success'')]))
     (newClient \<lparr>authUserId = ''123456'', apiKey = ''abc123'', baseUrl = Some ''nonsense'',
                timeout = None\<rparr>)
     ''dns/activate.json'' None [] = (Inl (TypeError ''Invalid URL''), [])"
proof -
  let ?es = "[(''order-id'', Some (PStr ''42''))]"
  let ?start = "\<lparr>location = ''https://httpapi.com/api/dns/activate.json'', searchParams = []\<rparr>"
  let ?built = "\<lparr>location = ''https://httpapi.com/api/dns/activate.json'',
             searchParams = [(''auth-userid'', ''123456''), (''api-key'', ''abc123''),
                             (''order-id'', ''42'')]\<rparr>"
  let ?net = "answering (JObj [(''status'', JStr ''Success'')])"
  let ?bad = "newClient \<lparr>authUserId = ''123456'', apiKey = ''abc123'', baseUrl = Some ''nonsense'',
                timeout = None\<rparr>"
  have h1: "new_URL samplePlatform ''dns/activate.json'' (client_baseUrl sampleClient) = Some ?start"
    by code_simp
  have h2: "buildUrl_url samplePlatform sampleClient ''dns/activate.json'' (Some ?es) = Inr ?built"
    by code_simp
  have h3: "distinct (map fst ?es)" by simp
  have str: "URL_toString samplePlatform ?built =
     ''https://httpapi.com/api/dns/activate.json?auth-userid=123456&api-key=abc123&order-id=42''"
    by code_simp
  note T = post_carries_parameters_in_query
    [of samplePlatform "''dns/activate.json''" sampleClient ?es ?net "[]" None,
     THEN conjunct1, rule_format, OF conjI [OF h1 conjI [OF h2 h3]]]
  have 1: "snd (post samplePlatform ?net sampleClient ''dns/activate.json'' (Some ?es) []) =
     [\<lparr>fc_url = ''https://httpapi.com/api/dns/activate.json?auth-userid=123456&api-key=abc123&order-id=42'',
       fc_method = POST, fc_headers = None, fc_body = None\<rparr>]"
    using T [THEN conjunct2, THEN conjunct1] by (simp only: str append_Nil)
  note R = T [THEN conjunct2, THEN conjunct2, THEN conjunct2, THEN conjunct2, THEN conjunct2]
  have 2: "searchParams_get (searchParams ?built) ''auth-userid'' =
      Some (client_authUserId sampleClient)"
    by (rule R [THEN conjunct1, rule_format]) simp
  have 3: "searchParams_get (searchParams ?built) ''api-key'' = Some (client_apiKey sampleClient)"
    by (rule R [THEN conjunct2, THEN conjunct1, rule_format]) simp
  have 4: "searchParams_get (searchParams ?built) ''order-id'' = Some (String_param (PStr ''42''))"
    by (rule R [THEN conjunct2, THEN conjunct2, rule_format]) simp
  have n: "new_URL samplePlatform ''dns/activate.json'' (client_baseUrl ?bad) = None"
    by code_simp
  have 5: "post samplePlatform ?net ?bad ''dns/activate.json'' None [] =
      (Inl (TypeError ''Invalid URL''), [])"
    by (rule post_carries_parameters_in_query
          [of samplePlatform "''dns/activate.json''" ?bad ?es ?net "[]" None,
           THEN conjunct2, THEN conjunct2, THEN conjunct2, THEN conjunct1, rule_format,
           THEN conjunct1])
       (rule n)
  from 1 2 3 4 5 show ?thesis by simp
qed

text \<open>
  The claim as stated fails for a client whose base URL is no URL: \<^verbatim>\<open>post\<close> sends no
  request at all.
\<close>

theorem post_without_request_counterexample:
  "post samplePlatform (answering (JObj [(''status'', JStr ''Success'')]))
     (newClient \<lparr>authUserId = ''123456'', apiKey = ''abc123'', baseUrl = Some ''nonsense'',
                timeout = None\<rparr>)
     ''dns/activate.json'' (Some [(''order-id'', Some (PStr ''42''))]) [] =
     (Inl (TypeError ''Invalid URL''), [])"
  by code_simp

section \<open>Properties of the constructor\<close>

lemma endsWith_slash_appended: "endsWith (b @ ''/'') ''/''"
  by (simp add: endsWith_def)

lemma endsWith_DEFAULT_BASE_URL: "endsWith DEFAULT_BASE_URL ''/''"
  by (simp add: endsWith_def DEFAULT_BASE_URL_def suffix_def)

lemma newClient_trailing_slash: "endsWith (client_baseUrl (newClient cfg)) ''/''"
  by (simp add: newClient_def Let_def endsWith_slash_appended endsWith_DEFAULT_BASE_URL
        split: option.splits)

lemma newClient_slash_added:
  "\<not> endsWith b ''/'' \<Longrightarrow>
   newClient (cfg\<lparr>baseUrl := Some b\<rparr>) = newClient (cfg\<lparr>baseUrl := Some (b @ ''/'')\<rparr>)"
  by (simp add: newClient_def Let_def endsWith_slash_appended)

lemma newClient_idempotent:
  "newClient (cfg\<lparr>baseUrl := Some (client_baseUrl (newClient cfg))\<rparr>) = newClient cfg"
  using newClient_trailing_slash [of cfg]
  by (simp add: newClient_def Let_def split: option.splits if_splits)

text \<open>
  Claim C10, amended. The base URL of every constructed client ends with a slash, and
  constructing a client from that base URL again changes nothing. Two configurations
  that differ only in that the base URL of one has no trailing slash and the base URL
  of the other is the same string followed by one slash give the same client, hence the
  same URL for every path and parameter object and the same outcome of every
  \<^verbatim>\<open>get\<close> and \<^verbatim>\<open>post\<close>.
\<close>

theorem newClient_normalizes_baseUrl:
  "endsWith (client_baseUrl (newClient cfg)) ''/'' \<and>
   newClient (cfg\<lparr>baseUrl := Some (client_baseUrl (newClient cfg))\<rparr>) = newClient cfg \<and>
   (\<not> endsWith b ''/'' \<longrightarrow>
      newClient (cfg\<lparr>baseUrl := Some b\<rparr>) = newClient (cfg\<lparr>baseUrl := Some (b @ ''/'')\<rparr>) \<and>
      buildUrl P (newClient (cfg\<lparr>baseUrl := Some b\<rparr>)) path ps =
        buildUrl P (newClient (cfg\<lparr>baseUrl := Some (b @ ''/'')\<rparr>)) path ps \<and>
      get P net (newClient (cfg\<lparr>baseUrl := Some b\<rparr>)) path ps s =
        get P net (newClient (cfg\<lparr>baseUrl := Some (b @ ''/'')\<rparr>)) path ps s \<and>
      post P net (newClient (cfg\<lparr>baseUrl := Some b\<rparr>)) path ps s =
        post P net (newClient (cfg\<lparr>baseUrl := Some (b @ ''/'')\<rparr>)) path ps s)"
  using newClient_trailing_slash [of cfg] newClient_idempotent [of cfg]
    newClient_slash_added [of b cfg]
  by simp

theorem newClient_normalizes_baseUrl_witness:
  "endsWith (client_baseUrl (newClient
      \<lparr>authUserId = ''123456'', apiKey = ''abc123'', baseUrl = Some ''https://test.httpapi.com/api'',
       timeout = None\<rparr>)) ''/'' \<and>
   \<not> endsWith ''https://test.httpapi.com/api'' ''/'' \<and>
   buildUrl samplePlatform
     (newClient \<lparr>authUserId = ''123456'', apiKey = ''abc123'',
                 baseUrl = Some ''https://test.httpapi.com/api'', timeout = None\<rparr>)
     ''domains/search.json'' None =
   buildUrl samplePlatform
     (newClient \<lparr>authUserId = ''123456'', apiKey = ''abc123'',
                 baseUrl = Some ''https://test.httpapi.com/api/'', timeout = None\<rparr>)
     ''domains/search.json'' None"
proof -
  let ?cfg = "\<lparr>authUserId = ''123456'', apiKey = ''abc123'',
               baseUrl = Some ''https://test.httpapi.com/api'', timeout = None\<rparr>"
  have h: "\<not> endsWith ''https://test.httpapi.com/api'' ''/''" by code_simp
  note T = newClient_normalizes_baseUrl
    [of ?cfg "''https://test.httpapi.com/api''" samplePlatform "''domains/search.json''" None
        "answering JNull" "[]"]
  have 1: "endsWith (client_baseUrl (newClient ?cfg)) ''/''"
    by (rule T [THEN conjunct1])
  have 2: "buildUrl samplePlatform
      (newClient (?cfg\<lparr>baseUrl := Some ''https://test.httpapi.com/api''\<rparr>))
      ''domains/search.json'' None =
    buildUrl samplePlatform
      (newClient (?cfg\<lparr>baseUrl := Some (''https://test.httpapi.com/api'' @ ''/'')\<rparr>))
      ''domains/search.json'' None"
    by (rule T [THEN conjunct2, THEN conjunct2, rule_format, THEN conjunct2, THEN conjunct1])
       (rule h)
  from 1 h 2 show ?thesis by simp
qed

text \<open>
  The claim as stated fails when the shorter base URL ends with a slash already: the
  constructor keeps both as they are, and the request URLs differ.
\<close>

theorem double_slash_counterexample:
  "buildUrl samplePlatform
     (newClient \<lparr>authUserId = ''123456'', apiKey = ''abc123'',
                 baseUrl = Some ''https://test.httpapi.com/api/'', timeout = None\<rparr>)
     ''domains/search.json'' None =
     Inr ''https://test.httpapi.com/api/domains/search.json?auth-userid=123456&api-key=abc123'' \<and>
   buildUrl samplePlatform
     (newClient \<lparr>authUserId = ''123456'', apiKey = ''abc123'',
                 baseUrl = Some ''https://test.httpapi.com/api//'', timeout = None\<rparr>)
     ''domains/search.json'' None =
     Inr ''https://test.httpapi.com/api//domains/search.json?auth-userid=123456&api-key=abc123''"
  by code_simp

section \<open>Properties of the search parsers\<close>

lemma pushRecords_filter:
  "pushRecords recs es =
     recs @ map snd (filter (\<lambda>e. isObject (snd e) \<and> inOp ''host'' (snd e)) es)"
  by (induction recs es rule: pushRecords.induct) auto

lemma pushDomains_filter:
  "pushDomains ds es = ds @ map (toDomain \<circ> snd) (filter (\<lambda>e. isObject (snd e)) es)"
  by (induction ds es rule: pushDomains.induct) auto

lemma pushCustomers_filter:
  "pushCustomers cs es = Inr cs' \<Longrightarrow>
   map Inr cs' = map Inr cs @ map (toCustomer \<circ> snd) (filter (\<lambda>e. isObject (snd e)) es)"
proof (induction cs es arbitrary: cs' rule: pushCustomers.induct)
  case (1 customers)
  then show ?case by auto
next
  case (2 customers key entry es)
  show ?case
  proof (cases "isObject entry")
    case False
    with 2 show ?thesis by simp
  next
    case True
    with "2.prems" obtain cu where cu: "toCustomer entry = Inr cu"
      and rest: "pushCustomers (customers @ [cu]) es = Inr cs'"
      by (auto split: sum.splits)
    from "2.IH"(2) [OF _ cu rest] True cu show ?thesis by simp
  qed
qed

lemma parseSearchResponse_records:
  "parseSearchResponse raw = Inr r \<Longrightarrow>
   records r = map snd (filter (\<lambda>e. isObject (snd e) \<and> inOp ''host'' (snd e)) (ownEntries raw))"
  by (auto simp: parseSearchResponse_def Object_entries_def Let_def pushRecords_filter
      split: sum.splits if_splits)

lemma Customer_parseSearchResponse_customers:
  "Customer_parseSearchResponse raw = Inr r \<Longrightarrow>
   map Inr (customers r) =
     map (toCustomer \<circ> snd) (filter (\<lambda>e. isObject (snd e)) (ownEntries raw))"
  using pushCustomers_filter [of "[]" "ownEntries raw"]
  by (auto simp: Customer_parseSearchResponse_def Object_entries_def bindE_def
      split: sum.splits if_splits)

lemma Domain_parseSearchResponse_domains:
  "Domain_parseSearchResponse raw = Inr r \<Longrightarrow>
   domains r = map (toDomain \<circ> snd) (filter (\<lambda>e. isObject (snd e)) (ownEntries raw))"
  by (auto simp: Domain_parseSearchResponse_def Object_entries_def bindE_def Let_def
      pushDomains_filter split: sum.splits if_splits)

lemma searchRecords_Inr:
  "searchRecords P net c ps s = (Inr r, s') \<Longrightarrow>
   \<exists>raw. get P net c ''dns/manage/search-records.json'' (defined (searchQuery ps)) s = (Inr raw, s') \<and>
         parseSearchResponse raw = Inr r"
  by (auto simp: searchRecords_def split: prod.splits sum.splits)

lemma Customer_search_Inr:
  "Customer_search P net c ps s = (Inr r, s') \<Longrightarrow>
   \<exists>raw. get P net c ''customers/search.json'' (Some (Customer_searchQuery ps)) s = (Inr raw, s') \<and>
         Customer_parseSearchResponse raw = Inr r"
  by (auto simp: Customer_search_def split: prod.splits sum.splits)

lemma Domain_search_Inr:
  "Domain_search P net c ps s = (Inr r, s') \<Longrightarrow>
   \<exists>raw. get P net c ''domains/search.json'' (Some (Domain_searchQuery ps)) s = (Inr raw, s') \<and>
         Domain_parseSearchResponse raw = Inr r"
  by (auto simp: Domain_search_def split: prod.splits sum.splits)

lemma filter_numbered:
  "\<forall>e \<in> set es. Q e \<longleftrightarrow> numberedKey (fst e) \<Longrightarrow>
   filter Q es = filter (\<lambda>e. numberedKey (fst e)) es"
  by (rule filter_cong) auto

text \<open>
  Claim C2, amended. Whenever \<^verbatim>\<open>DnsApi.searchRecords\<close>, \<^verbatim>\<open>CustomerApi.search\<close> or
  \<^verbatim>\<open>DomainApi.search\<close> returns, its array holds, in the order in which the keys of the
  raw response are enumerated, one element for each entry whose value is an object (for
  \<^verbatim>\<open>searchRecords\<close>: an object with a \<^verbatim>\<open>host\<close> property), whatever the key of the
  entry; an entry whose value is no object contributes nothing. The element is the
  entry itself for DNS records, and the customer or the domain made from the entry
  otherwise. For a response whose entries of that kind are exactly the entries under
  the numbered keys, the array holds exactly the numbered entries.
\<close>

theorem search_arrays_hold_object_entries:
  "(\<forall>r s'. searchRecords P net c dps s = (Inr r, s') \<longrightarrow>
      (\<exists>raw. get P net c ''dns/manage/search-records.json'' (defined (searchQuery dps)) s =
               (Inr raw, s') \<and>
             records r =
               map snd (filter (\<lambda>e. isObject (snd e) \<and> inOp ''host'' (snd e)) (ownEntries raw)) \<and>
             ((\<forall>e \<in> set (ownEntries raw).
                 isObject (snd e) \<and> inOp ''host'' (snd e) \<longleftrightarrow> numberedKey (fst e)) \<longrightarrow>
              records r = map snd (filter (\<lambda>e. numberedKey (fst e)) (ownEntries raw))))) \<and>
   (\<forall>r s'. Customer_search P net c cps s = (Inr r, s') \<longrightarrow>
      (\<exists>raw. get P net c ''customers/search.json'' (Some (Customer_searchQuery cps)) s =
               (Inr raw, s') \<and>
             map Inr (customers r) =
               map (toCustomer \<circ> snd) (filter (\<lambda>e. isObject (snd e)) (ownEntries raw)) \<and>
             ((\<forall>e \<in> set (ownEntries raw). isObject (snd e) \<longleftrightarrow> numberedKey (fst e)) \<longrightarrow>
              map Inr (customers r) =
                map (toCustomer \<circ> snd) (filter (\<lambda>e. numberedKey (fst e)) (ownEntries raw))))) \<and>
   (\<forall>r s'. Domain_search P net c qps s = (Inr r, s') \<longrightarrow>
      (\<exists>raw. get P net c ''domains/search.json'' (Some (Domain_searchQuery qps)) s =
               (Inr raw, s') \<and>
             domains r =
               map (toDomain \<circ> snd) (filter (\<lambda>e. isObject (snd e)) (ownEntries raw)) \<and>
             ((\<forall>e \<in> set (ownEntries raw). isObject (snd e) \<longleftrightarrow> numberedKey (fst e)) \<longrightarrow>
              domains r =
                map (toDomain \<circ> snd) (filter (\<lambda>e. numberedKey (fst e)) (ownEntries raw)))))"
proof (intro conjI allI impI)
  fix r s'
  assume "searchRecords P net c dps s = (Inr r, s')"
  from searchRecords_Inr [OF this] obtain raw where
    g: "get P net c ''dns/manage/search-records.json'' (defined (searchQuery dps)) s = (Inr raw, s')"
    and p: "parseSearchResponse raw = Inr r" by blast
  note f = parseSearchResponse_records [OF p]
  have "(\<forall>e \<in> set (ownEntries raw).
           isObject (snd e) \<and> inOp ''host'' (snd e) \<longleftrightarrow> numberedKey (fst e)) \<longrightarrow>
        records r = map snd (filter (\<lambda>e. numberedKey (fst e)) (ownEntries raw))"
    using f filter_numbered [of "ownEntries raw" "\<lambda>e. isObject (snd e) \<and> inOp ''host'' (snd e)"]
    by simp
  with g f show "\<exists>raw. get P net c ''dns/manage/search-records.json'' (defined (searchQuery dps)) s =
               (Inr raw, s') \<and>
             records r =
               map snd (filter (\<lambda>e. isObject (snd e) \<and> inOp ''host'' (snd e)) (ownEntries raw)) \<and>
             ((\<forall>e \<in> set (ownEntries raw).
                 isObject (snd e) \<and> inOp ''host'' (snd e) \<longleftrightarrow> numberedKey (fst e)) \<longrightarrow>
              records r = map snd (filter (\<lambda>e. numberedKey (fst e)) (ownEntries raw)))"
    by blast
next
  fix r s'
  assume "Customer_search P net c cps s = (Inr r, s')"
  from Customer_search_Inr [OF this] obtain raw where
    g: "get P net c ''customers/search.json'' (Some (Customer_searchQuery cps)) s = (Inr raw, s')"
    and p: "Customer_parseSearchResponse raw = Inr r" by blast
  note f = Customer_parseSearchResponse_customers [OF p]
  have "(\<forall>e \<in> set (ownEntries raw). isObject (snd e) \<longleftrightarrow> numberedKey (fst e)) \<longrightarrow>
        map Inr (customers r) =
          map (toCustomer \<circ> snd) (filter (\<lambda>e. numberedKey (fst e)) (ownEntries raw))"
    using f filter_numbered [of "ownEntries raw" "\<lambda>e. isObject (snd e)"] by simp
  with g f show "\<exists>raw. get P net c ''customers/search.json'' (Some (Customer_searchQuery cps)) s =
               (Inr raw, s') \<and>
             map Inr (customers r) =
               map (toCustomer \<circ> snd) (filter (\<lambda>e. isObject (snd e)) (ownEntries raw)) \<and>
             ((\<forall>e \<in> set (ownEntries raw). isObject (snd e) \<longleftrightarrow> numberedKey (fst e)) \<longrightarrow>
              map Inr (customers r) =
                map (toCustomer \<circ> snd) (filter (\<lambda>e. numberedKey (fst e)) (ownEntries raw)))"
    by blast
next
  fix r s'
  assume "Domain_search P net c qps s = (Inr r, s')"
  from Domain_search_Inr [OF this] obtain raw where
    g: "get P net c ''domains/search.json'' (Some (Domain_searchQuery qps)) s = (Inr raw, s')"
    and p: "Domain_parseSearchResponse raw = Inr r" by blast
  note f = Domain_parseSearchResponse_domains [OF p]
  have "(\<forall>e \<in> set (ownEntries raw). isObject (snd e) \<longleftrightarrow> numberedKey (fst e)) \<longrightarrow>
        domains r = map (toDomain \<circ> snd) (filter (\<lambda>e. numberedKey (fst e)) (ownEntries raw))"
    using f filter_numbered [of "ownEntries raw" "\<lambda>e. isObject (snd e)"] by simp
  with g f show "\<exists>raw. get P net c ''domains/search.json'' (Some (Domain_searchQuery qps)) s =
               (Inr raw, s') \<and>
             domains r =
               map (toDomain \<circ> snd) (filter (\<lambda>e. isObject (snd e)) (ownEntries raw)) \<and>
             ((\<forall>e \<in> set (ownEntries raw). isObject (snd e) \<longleftrightarrow> numberedKey (fst e)) \<longrightarrow>
              domains r =
                map (toDomain \<circ> snd) (filter (\<lambda>e. numberedKey (fst e)) (ownEntries raw)))"
    by blast
qed

theorem search_arrays_hold_object_entries_witness:
  "fst (searchRecords samplePlatform
     (answering (JObj [(''1'', JObj [(''host'', JStr ''www''), (''value'', JStr ''192.0.2.1'')]),
                       (''recsonpage'', JStr ''1''), (''recsindb'', JStr ''1'')]))
     sampleClient
     \<lparr>search_domainName = ''example.com'', search_type = A, search_host = None,
      search_value = None, search_noOfRecords = None, search_pageNo = None\<rparr> []) =
     Inr \<lparr>records = [JObj [(''host'', JStr ''www''), (''value'', JStr ''192.0.2.1'')]],
          total = Some 1, pageSize = Some 1\<rparr> \<and>
   [JObj [(''host'', JStr ''www''), (''value'', JStr ''192.0.2.1'')]] =
     map snd (filter (\<lambda>e. numberedKey (fst e))
       (ownEntries (JObj [(''1'', JObj [(''host'', JStr ''www''), (''value'', JStr ''192.0.2.1'')]),
                          (''recsonpage'', JStr ''1''), (''recsindb'', JStr ''1'')]))) \<and>
   map Inr (customers
     \<lparr>customers = [\<lparr>customerid = ''77'', username = ''a@example.com'', name = [], company = [],
                     city = [], state = [], country = [], customerstatus = [],
                     totalreceipts = [], websitecount = None\<rparr>],
      customers_total = Some 1, customers_pageSize = Some 1\<rparr>) =
     map (toCustomer \<circ> snd) (filter (\<lambda>e. isObject (snd e))
       (ownEntries (JObj [(''1'', JObj [(''customer.customerid'', JStr ''77''),
                                        (''customer.username'', JStr ''a@example.com'')]),
                          (''recsonpage'', JStr ''1''), (''recsindb'', JStr ''1'')]))) \<and>
   domains
     \<lparr>domains = [\<lparr>own = [(''orderid'', JStr ''1001''), (''description'', JStr ''example.com''),
                          (''domainname'', JStr ''example.com'')], proto = ObjectPrototype\<rparr>],
      domains_total = Some 1, domains_pageSize = Some 1\<rparr> =
     map (toDomain \<circ> snd) (filter (\<lambda>e. isObject (snd e))
       (ownEntries (JObj [(''1'', JObj [(''orders.orderid'', JStr ''1001''),
                                        (''entity.description'', JStr ''example.com'')]),
                          (''recsonpage'', JStr ''1''), (''recsindb'', JStr ''1'')])))"
proof -
  let ?dns = "JObj [(''1'', JObj [(''host'', JStr ''www''), (''value'', JStr ''192.0.2.1'')]),
                    (''recsonpage'', JStr ''1''), (''recsindb'', JStr ''1'')]"
  let ?dps = "\<lparr>search_domainName = ''example.com'', search_type = A, search_host = None,
      search_value = None, search_noOfRecords = None, search_pageNo = None\<rparr>"
  let ?dr = "\<lparr>records = [JObj [(''host'', JStr ''www''), (''value'', JStr ''192.0.2.1'')]],
          total = Some 1, pageSize = Some 1\<rparr>"
  let ?dcalls = "[\<lparr>fc_url = ''https://httpapi.com/api/dns/manage/search-records.json?auth-userid=123456&api-key=abc123&domain-name=example.com&type=A&no-of-records=50&page-no=1'',
                   fc_method = GET, fc_headers = None, fc_body = None\<rparr>]"
  let ?cust = "JObj [(''1'', JObj [(''customer.customerid'', JStr ''77''),
                                        (''customer.username'', JStr ''a@example.com'')]),
                          (''recsonpage'', JStr ''1''), (''recsindb'', JStr ''1'')]"
  let ?cps = "\<lparr>cs_noOfRecords = None, cs_pageNo = None, cs_customerId = None, cs_username = None,
      cs_name = None, cs_company = None, cs_city = None, cs_state = None, cs_status = None\<rparr>"
  let ?cr = "\<lparr>customers = [\<lparr>customerid = ''77'', username = ''a@example.com'', name = [], company = [],
                     city = [], state = [], country = [], customerstatus = [],
                     totalreceipts = [], websitecount = None\<rparr>],
      customers_total = Some 1, customers_pageSize = Some 1\<rparr>"
  let ?ccalls = "[\<lparr>fc_url = ''https://httpapi.com/api/customers/search.json?auth-userid=123456&api-key=abc123&no-of-records=25&page-no=1'',
                   fc_method = GET, fc_headers = None, fc_body = None\<rparr>]"
  let ?dom = "JObj [(''1'', JObj [(''orders.orderid'', JStr ''1001''),
                                        (''entity.description'', JStr ''example.com'')]),
                          (''recsonpage'', JStr ''1''), (''recsindb'', JStr ''1'')]"
  let ?qps = "\<lparr>ds_noOfRecords = None, ds_pageNo = None, ds_customerId = None,
      ds_domainName = None, ds_status = None\<rparr>"
  let ?qr = "\<lparr>domains = [\<lparr>own = [(''orderid'', JStr ''1001''), (''description'', JStr ''example.com''),
                          (''domainname'', JStr ''example.com'')], proto = ObjectPrototype\<rparr>],
      domains_total = Some 1, domains_pageSize = Some 1\<rparr>"
  let ?qcalls = "[\<lparr>fc_url = ''https://httpapi.com/api/domains/search.json?auth-userid=123456&api-key=abc123&no-of-records=25&page-no=1'',
                   fc_method = GET, fc_headers = None, fc_body = None\<rparr>]"
  have d1: "searchRecords samplePlatform (answering ?dns) sampleClient ?dps [] = (Inr ?dr, ?dcalls)"
    by code_simp
  have d2: "get samplePlatform (answering ?dns) sampleClient ''dns/manage/search-records.json''
              (defined (searchQuery ?dps)) [] = (Inr ?dns, ?dcalls)"
    by code_simp
  have d3: "\<forall>e \<in> set (ownEntries ?dns).
              isObject (snd e) \<and> inOp ''host'' (snd e) \<longleftrightarrow> numberedKey (fst e)"
    by code_simp
  have c1: "Customer_search samplePlatform (answering ?cust) sampleClient ?cps [] = (Inr ?cr, ?ccalls)"
    by code_simp
  have c2: "get samplePlatform (answering ?cust) sampleClient ''customers/search.json''
              (Some (Customer_searchQuery ?cps)) [] = (Inr ?cust, ?ccalls)"
    by code_simp
  have q1: "Domain_search samplePlatform (answering ?dom) sampleClient ?qps [] = (Inr ?qr, ?qcalls)"
    by code_simp
  have q2: "get samplePlatform (answering ?dom) sampleClient ''domains/search.json''
              (Some (Domain_searchQuery ?qps)) [] = (Inr ?dom, ?qcalls)"
    by code_simp
  from search_arrays_hold_object_entries
    [of samplePlatform "answering ?dns" sampleClient ?dps "[]" ?cps ?qps,
     THEN conjunct1, rule_format, OF d1]
  obtain raw where g: "get samplePlatform (answering ?dns) sampleClient
        ''dns/manage/search-records.json'' (defined (searchQuery ?dps)) [] = (Inr raw, ?dcalls)"
    and n: "(\<forall>e \<in> set (ownEntries raw).
               isObject (snd e) \<and> inOp ''host'' (snd e) \<longleftrightarrow> numberedKey (fst e)) \<longrightarrow>
            records ?dr = map snd (filter (\<lambda>e. numberedKey (fst e)) (ownEntries raw))"
    by (elim exE conjE)
  from g [symmetric] d2 have e: "raw = ?dns"
    by (simp only: prod.inject sum.inject simp_thms)
  have 1: "records ?dr = map snd (filter (\<lambda>e. numberedKey (fst e)) (ownEntries ?dns))"
    by (rule n [unfolded e, THEN mp, OF d3])
  from search_arrays_hold_object_entries
    [of samplePlatform "answering ?cust" sampleClient ?dps "[]" ?cps ?qps,
     THEN conjunct2, THEN conjunct1, rule_format, OF c1]
  obtain raw2 where g2: "get samplePlatform (answering ?cust) sampleClient
        ''customers/search.json'' (Some (Customer_searchQuery ?cps)) [] = (Inr raw2, ?ccalls)"
    and n2: "map Inr (customers ?cr) =
       map (toCustomer \<circ> snd) (filter (\<lambda>e. isObject (snd e)) (ownEntries raw2))"
    by (elim exE conjE)
  from g2 [symmetric] c2 have e2: "raw2 = ?cust"
    by (simp only: prod.inject sum.inject simp_thms)
  have 2: "map Inr (customers ?cr) =
     map (toCustomer \<circ> snd) (filter (\<lambda>e. isObject (snd e)) (ownEntries ?cust))"
    by (rule n2 [unfolded e2])
  from search_arrays_hold_object_entries
    [of samplePlatform "answering ?dom" sampleClient ?dps "[]" ?cps ?qps,
     THEN conjunct2, THEN conjunct2, rule_format, OF q1]
  obtain raw3 where g3: "get samplePlatform (answering ?dom) sampleClient
        ''domains/search.json'' (Some (Domain_searchQuery ?qps)) [] = (Inr raw3, ?qcalls)"
    and n3: "domains ?qr =
       map (toDomain \<circ> snd) (filter (\<lambda>e. isObject (snd e)) (ownEntries raw3))"
    by (elim exE conjE)
  from g3 [symmetric] q2 have e3: "raw3 = ?dom"
    by (simp only: prod.inject sum.inject simp_thms)
  have 3: "domains ?qr =
     map (toDomain \<circ> snd) (filter (\<lambda>e. isObject (snd e)) (ownEntries ?dom))"
    by (rule n3 [unfolded e3])
  have 0: "fst (searchRecords samplePlatform (answering ?dns) sampleClient ?dps []) = Inr ?dr"
    by (simp only: d1 fst_conv)
  have sel: "records ?dr = [JObj [(''host'', JStr ''www''), (''value'', JStr ''192.0.2.1'')]]"
    by (simp only: DnsSearchResult.simps)
  have n1: "[JObj [(''host'', JStr ''www''), (''value'', JStr ''192.0.2.1'')]] =
     map snd (filter (\<lambda>e. numberedKey (fst e)) (ownEntries ?dns))"
    by (rule trans [OF sel [symmetric] 1])
  from 0 n1 2 3 show ?thesis by (intro conjI)
qed

text \<open>
  The claim as stated fails in both directions: an object under a key that is not
  numbered becomes an element of the domain array, and an object under the key
  \<^verbatim>\<open>"1"\<close> that has no \<^verbatim>\<open>host\<close> is left out of the DNS records.
\<close>

theorem search_arrays_counterexample:
  "fst (Domain_search samplePlatform
     (answering (JObj [(''recsonpage'', JStr ''0''), (''recsindb'', JStr ''0''),
                       (''meta'', JObj [])]))
     sampleClient
     \<lparr>ds_noOfRecords = None, ds_pageNo = None, ds_customerId = None,
      ds_domainName = None, ds_status = None\<rparr> []) =
     Inr \<lparr>domains = [\<lparr>own = [], proto = ObjectPrototype\<rparr>],
          domains_total = Some 0, domains_pageSize = Some 0\<rparr> \<and>
   fst (searchRecords samplePlatform
     (answering (JObj [(''1'', JObj [(''value'', JStr ''192.0.2.1'')]),
                       (''recsonpage'', JStr ''1''), (''recsindb'', JStr ''1'')]))
     sampleClient
     \<lparr>search_domainName = ''example.com'', search_type = A, search_host = None,
      search_value = None, search_noOfRecords = None, search_pageNo = None\<rparr> []) =
     Inr \<lparr>records = [], total = Some 1, pageSize = Some 1\<rparr>"
  by code_simp

subsection \<open>Stripping the prefixes of a domain entry\<close>

lemma cleanKey_no_dot: "CHR ''.'' \<notin> set k \<Longrightarrow> cleanKey k = k"
  by (simp add: cleanKey_def)

lemma dropWhile_to_dot:
  "CHR ''.'' \<notin> set p \<Longrightarrow> dropWhile (\<lambda>c. c \<noteq> CHR ''.'') (p @ CHR ''.'' # q) = CHR ''.'' # q"
  by (induction p) auto

lemma cleanKey_dotted: "CHR ''.'' \<notin> set p \<Longrightarrow> cleanKey (p @ CHR ''.'' # q) = q"
  by (simp add: cleanKey_def dropWhile_to_dot)

lemma map_of_ownSet: "map_of (ownSet ps k v) = (map_of ps)(k \<mapsto> v)"
  by (induction ps k v rule: ownSet.induct) auto

lemma setProp_plain:
  "k \<noteq> ''__proto__'' \<Longrightarrow>
   proto (setProp d k v) = proto d \<and> map_of (own (setProp d k v)) = (map_of (own d))(k \<mapsto> v)"
  by (simp add: setProp_def map_of_ownSet)

lemma stripKeys_plain:
  "''__proto__'' \<notin> set (map (cleanKey \<circ> fst) es) \<Longrightarrow>
   proto (stripKeys d es) = proto d \<and>
   map_of (own (stripKeys d es)) =
     map_of (own d) ++ map_of (rev (map (\<lambda>(k, v). (cleanKey k, v)) es))"
proof (induction d es rule: stripKeys.induct)
  case (1 d)
  then show ?case by simp
next
  case (2 d dottedKey v es)
  then have k: "cleanKey dottedKey \<noteq> ''__proto__''"
    and rest: "''__proto__'' \<notin> set (map (cleanKey \<circ> fst) es)" by auto
  from "2.IH" [OF rest] setProp_plain [OF k, of d v]
  show ?case by (simp add: map_add_upd_left map_add_def fun_eq_iff split: option.splits)
qed

lemma readProp_plain:
  "proto d = ObjectPrototype \<Longrightarrow> readProp d n = map_of (own d) n"
  by (simp add: readProp_def split: option.splits)

text \<open>
  Claim C1, amended. A key without a dot is left as it is, and a key with a dot is
  replaced by what follows its first dot. For an entry none of whose keys is replaced by
  \<^verbatim>\<open>__proto__\<close>, the object made from the entry reads, under every name \<open>n\<close>, the
  value of the last property of the entry whose key is replaced by \<open>n\<close>, with one
  exception: when the value so read under \<^verbatim>\<open>description\<close> is truthy and the value
  under \<^verbatim>\<open>domainname\<close> is falsy (missing, \<^verbatim>\<open>null\<close>, \<^verbatim>\<open>false\<close>, \<^verbatim>\<open>0\<close> or the
  empty string), \<^verbatim>\<open>domainname\<close> reads the value of \<^verbatim>\<open>description\<close>.
\<close>

theorem toDomain_strips_prefixes:
  assumes "''__proto__'' \<notin> set (map (cleanKey \<circ> fst) (ownEntries entry))"
  shows "(CHR ''.'' \<notin> set k \<longrightarrow> cleanKey k = k) \<and>
     (CHR ''.'' \<notin> set p \<longrightarrow> cleanKey (p @ ''.'' @ q) = q) \<and>
     readProp (toDomain entry) n =
       (let m = map_of (rev (map (\<lambda>(k, v). (cleanKey k, v)) (ownEntries entry)))
        in if n = ''domainname'' \<and> truthy (m ''description'') \<and> \<not> truthy (m ''domainname'')
           then m ''description'' else m n)"
proof -
  let ?d = "stripKeys emptyObject (ownEntries entry)"
  let ?m = "map_of (rev (map (\<lambda>(k, v). (cleanKey k, v)) (ownEntries entry)))"
  from stripKeys_plain [OF assms, of emptyObject]
  have p: "proto ?d = ObjectPrototype" and o: "map_of (own ?d) = ?m"
    by (simp_all add: emptyObject_def)
  have r: "\<And>x. readProp ?d x = ?m x"
    using p o by (simp add: readProp_plain)
  have "readProp (toDomain entry) n =
       (if n = ''domainname'' \<and> truthy (?m ''description'') \<and> \<not> truthy (?m ''domainname'')
        then ?m ''description'' else ?m n)"
  proof (cases "truthy (?m ''description'') \<and> \<not> truthy (?m ''domainname'')")
    case False
    then have "toDomain entry = ?d"
      by (auto simp: toDomain_def mapDescription_def r)
    with False show ?thesis by (auto simp: r)
  next
    case True
    then obtain v where v: "?m ''description'' = Some v" by (cases "?m ''description''") auto
    with True have t: "toDomain entry = setProp ?d ''domainname'' v"
      by (simp add: toDomain_def mapDescription_def r)
    have "proto (setProp ?d ''domainname'' v) = ObjectPrototype"
      and "map_of (own (setProp ?d ''domainname'' v)) = ?m(''domainname'' \<mapsto> v)"
      using setProp_plain [of "''domainname''" ?d v] p o by simp_all
    then have "readProp (toDomain entry) n = (?m(''domainname'' \<mapsto> v)) n"
      by (simp add: t readProp_plain)
    with True v show ?thesis by simp
  qed
  then show ?thesis by (simp add: cleanKey_no_dot cleanKey_dotted Let_def)
qed

theorem toDomain_strips_prefixes_witness:
  "''__proto__'' \<notin> set (map (cleanKey \<circ> fst) (ownEntries
      (JObj [(''orders.orderid'', JStr ''1001''), (''entity.description'', JStr ''example.com'')]))) \<and>
   cleanKey (''orders'' @ ''.'' @ ''orderid'') = ''orderid'' \<and>
   readProp (toDomain
      (JObj [(''orders.orderid'', JStr ''1001''), (''entity.description'', JStr ''example.com'')]))
      ''domainname'' = Some (JStr ''example.com'')"
proof -
  let ?e = "JObj [(''orders.orderid'', JStr ''1001''), (''entity.description'', JStr ''example.com'')]"
  have h: "''__proto__'' \<notin> set (map (cleanKey \<circ> fst) (ownEntries ?e))"
    by code_simp
  note T = toDomain_strips_prefixes [OF h, of _ "''orders''" "''orderid''" "''domainname''"]
  have 1: "cleanKey (''orders'' @ ''.'' @ ''orderid'') = ''orderid''"
    by (rule T [THEN conjunct2, THEN conjunct1, rule_format]) simp
  have v: "(let m = map_of (rev (map (\<lambda>(k, v). (cleanKey k, v)) (ownEntries ?e)))
        in if ''domainname'' = ''domainname'' \<and> truthy (m ''description'') \<and>
              \<not> truthy (m ''domainname'')
           then m ''description'' else m ''domainname'') = Some (JStr ''example.com'')"
    by code_simp
  have 2: "readProp (toDomain ?e) ''domainname'' = Some (JStr ''example.com'')"
    using T [THEN conjunct2, THEN conjunct2] by (simp only: v)
  from h 1 2 show ?thesis by (intro conjI)
qed

text \<open>
  The claim as stated fails for a description that is the empty string: the object has
  a \<^verbatim>\<open>description\<close> and no \<^verbatim>\<open>domainname\<close>, and nothing is copied.
\<close>

theorem empty_description_counterexample:
  "toDomain (JObj [(''orders.orderid'', JStr ''1001''), (''entity.description'', JStr [])]) =
     \<lparr>own = [(''orderid'', JStr ''1001''), (''description'', JStr [])], proto = ObjectPrototype\<rparr>"
  by code_simp

text \<open>
  A key replaced by \<^verbatim>\<open>__proto__\<close> creates no property: its value becomes the
  prototype of the object, and a \<^verbatim>\<open>description\<close> read through it is copied.
\<close>

lemma proto_key_example:
  "toDomain (JObj [(''entity.__proto__'', JObj [(''description'', JStr ''example.com'')])]) =
     \<lparr>own = [(''domainname'', JStr ''example.com'')],
      proto = ValuePrototype (JObj [(''description'', JStr ''example.com'')])\<rparr>"
  by code_simp

section \<open>Properties of \<^verbatim>\<open>searchAllRecords\<close>\<close>

lemma searchPages_extends:
  "searchPages fuel P net c d ty pageNo allRecords s = Some (r, allRecords', s') \<Longrightarrow>
   \<exists>kept. allRecords' = allRecords @ kept"
proof (induction fuel arbitrary: pageNo allRecords s)
  case 0
  then show ?case by simp
next
  case (Suc fuel)
  let ?ps = "\<lparr>search_domainName = d, search_type = ty, search_host = None,
              search_value = None, search_noOfRecords = Some 50, search_pageNo = Some pageNo\<rparr>"
  show ?case
  proof (cases "searchRecords P net c ?ps s")
    case (Pair res s1)
    show ?thesis
    proof (cases res)
      case (Inl e)
      with Pair Suc.prems show ?thesis by simp
    next
      case (Inr result)
      show ?thesis
      proof (cases "case total result of None \<Rightarrow> False | Some t \<Rightarrow> t > pageNo * 50")
        case True
        with Pair Inr Suc.prems
        have "searchPages fuel P net c d ty (pageNo + 1) (allRecords @ records result) s1 =
                Some (r, allRecords', s')"
          by (simp add: Let_def)
        from Suc.IH [OF this] show ?thesis by auto
      next
        case False
        with Pair Inr Suc.prems show ?thesis by (auto simp: Let_def)
      qed
    qed
  qed
qed




lemma searchAllRecords_total:
  "searchAllRecords fuel P net c d s = Some (Inr r, s') \<Longrightarrow>
   all_total r = int (length (all_records r))"
  by (auto simp: searchAllRecords_def split: option.splits prod.splits sum.splits)












end
